theory Spec2Isabelle
  imports Complex_Main
begin

section \<open>BrowserService: the concurrency limiter\<close>

text \<open>
  \<^verbatim>\<open>BrowserService\<close> keeps three fields for its semaphore: the capacity
  \<^verbatim>\<open>maxConcurrentPages\<close>, the counter \<^verbatim>\<open>currentSlots\<close> and the array \<^verbatim>\<open>queue\<close> of
  closures \<^verbatim>\<open>() => { this.currentSlots += 1; resolve(); }\<close>. A queued closure is
  represented by the caller whose promise it resolves; running it is the increment
  followed by the grant to that caller.
\<close>

type_synonym caller = nat

record browser_service =
  maxConcurrentPages :: int
  currentSlots :: int
  queue :: "caller list"

text \<open>
  \<^verbatim>\<open>Number(process.env.MAX_CONCURRENT_PAGES) || 2\<close> on an unset variable (NaN) or an
  integer value: 0 and NaN are falsy and give the default 2.
\<close>

definition maxConcurrentPages_of_env :: "int option \<Rightarrow> int" where
  "maxConcurrentPages_of_env v = (case v of None \<Rightarrow> 2 | Some n \<Rightarrow> if n = 0 then 2 else n)"

definition new_service :: "int \<Rightarrow> browser_service" where
  "new_service n = \<lparr>maxConcurrentPages = n, currentSlots = 0, queue = []\<rparr>"

text \<open>
  Both operations return the new state and the callers whose \<^verbatim>\<open>acquireSlot\<close> promise
  the call resolved (none or one).
\<close>

definition acquireSlot :: "caller \<Rightarrow> browser_service \<Rightarrow> browser_service \<times> caller list" where
  "acquireSlot w s =
     (if currentSlots s < maxConcurrentPages s
      then (s\<lparr>currentSlots := currentSlots s + 1\<rparr>, [w])
      else (s\<lparr>queue := queue s @ [w]\<rparr>, []))"

definition releaseSlot :: "browser_service \<Rightarrow> browser_service \<times> caller list" where
  "releaseSlot s =
     (let s1 = s\<lparr>currentSlots := max 0 (currentSlots s - 1)\<rparr>
      in case queue s1 of
           [] \<Rightarrow> (s1, [])
         | nxt # rest \<Rightarrow> (s1\<lparr>queue := rest, currentSlots := currentSlots s1 + 1\<rparr>, [nxt]))"

datatype call = AcquireSlot caller | ReleaseSlot

fun step :: "call \<Rightarrow> browser_service \<Rightarrow> browser_service \<times> caller list" where
  "step (AcquireSlot w) s = acquireSlot w s"
| "step ReleaseSlot s = releaseSlot s"

text \<open>An interleaving is a list of calls; \<open>run\<close> returns the final state and the grants in order.\<close>

fun run :: "call list \<Rightarrow> browser_service \<Rightarrow> browser_service \<times> caller list" where
  "run [] s = (s, [])"
| "run (c # cs) s =
     (case step c s of (s1, g1) \<Rightarrow> (case run cs s1 of (s2, g2) \<Rightarrow> (s2, g1 @ g2)))"

fun arrivals :: "call list \<Rightarrow> caller list" where
  "arrivals [] = []"
| "arrivals (AcquireSlot w # cs) = w # arrivals cs"
| "arrivals (ReleaseSlot # cs) = arrivals cs"

definition slots_inv :: "browser_service \<Rightarrow> bool" where
  "slots_inv s \<longleftrightarrow>
     currentSlots s \<le> maxConcurrentPages s \<and> (queue s \<noteq> [] \<longrightarrow> currentSlots s = maxConcurrentPages s)"

definition waiting_inv :: "browser_service \<Rightarrow> bool" where
  "waiting_inv s \<longleftrightarrow> (queue s \<noteq> [] \<longrightarrow> maxConcurrentPages s \<le> currentSlots s)"

section \<open>Helpers: retryWithBackoff\<close>

text \<open>
  A JavaScript \<^verbatim>\<open>throw\<close> carries any value. The code tells \<^verbatim>\<open>Error\<close> instances
  (with their message) from every other thrown value, and \<^verbatim>\<open>undefined\<close> is what an
  unassigned \<^verbatim>\<open>lastError\<close> holds. A promise that settles is a sum: \<open>Inl\<close> the value
  thrown, \<open>Inr\<close> the value returned.
\<close>

datatype thrown = ErrorObject string | OtherValue string | UndefinedValue

fun instanceof_Error :: "thrown \<Rightarrow> bool" where
  "instanceof_Error (ErrorObject m) = True"
| "instanceof_Error (OtherValue v) = False"
| "instanceof_Error UndefinedValue = False"

datatype retry_event = Invoked | Waited real

text \<open>
  The loop of \<^verbatim>\<open>retryWithBackoff\<close>. Every iteration calls \<^verbatim>\<open>fn\<close> once and, between two
  iterations, \<^verbatim>\<open>Math.random\<close> once, so \<open>fn attempt\<close> is the outcome of the call made in
  iteration \<open>attempt\<close> and \<open>random attempt\<close> the number in \<open>[0, 1)\<close> drawn after it.
  \<^verbatim>\<open>maxRetries\<close> is a count. The result is what the promise settles to, with the
  invocations and the delays in the order they happened.
\<close>

function retry_loop ::
  "(nat \<Rightarrow> thrown + 'a) \<Rightarrow> nat \<Rightarrow> real \<Rightarrow> (nat \<Rightarrow> real) \<Rightarrow> nat \<Rightarrow> thrown option
     \<Rightarrow> (thrown + 'a) \<times> retry_event list" where
  "retry_loop fn maxRetries baseDelay random attempt lastError =
     (if attempt \<le> maxRetries then
        (case fn attempt of
           Inr v \<Rightarrow> (Inr v, [Invoked])
         | Inl error \<Rightarrow>
             (let lastError' =
                    (if instanceof_Error error then error else ErrorObject ''Unknown error'')
              in if attempt = maxRetries then (Inl lastError', [Invoked])
                 else
                   (let delay = baseDelay * 2 ^ attempt + random attempt * 1000;
                        rest = retry_loop fn maxRetries baseDelay random (attempt + 1)
                                 (Some lastError')
                    in (fst rest, Invoked # Waited delay # snd rest))))
      else (Inl (case lastError of None \<Rightarrow> UndefinedValue | Some e \<Rightarrow> e), []))"
  by pat_completeness auto
termination
  by (relation "measure (\<lambda>(fn, maxRetries, baseDelay, random, attempt, lastError).
        Suc maxRetries - attempt)") auto

definition retryWithBackoff ::
  "(nat \<Rightarrow> thrown + 'a) \<Rightarrow> nat \<Rightarrow> real \<Rightarrow> (nat \<Rightarrow> real) \<Rightarrow> (thrown + 'a) \<times> retry_event list" where
  "retryWithBackoff fn maxRetries baseDelay random =
     retry_loop fn maxRetries baseDelay random 0 None"

fun invocations :: "retry_event list \<Rightarrow> nat" where
  "invocations [] = 0"
| "invocations (Invoked # t) = Suc (invocations t)"
| "invocations (Waited d # t) = invocations t"

fun delays :: "retry_event list \<Rightarrow> real list" where
  "delays [] = []"
| "delays (Invoked # t) = delays t"
| "delays (Waited d # t) = d # delays t"

text \<open>
  The delay waited before attempt \<open>i\<close> (0-indexed, \<open>i \<ge> 1\<close>) is the \<open>i\<close>-th delay of the
  run; there is none before attempt 0 nor before an attempt that was never made.
\<close>

definition delay_before_attempt :: "retry_event list \<Rightarrow> nat \<Rightarrow> real option" where
  "delay_before_attempt t i =
     (if 1 \<le> i \<and> i \<le> length (delays t) then Some (delays t ! (i - 1)) else None)"

text \<open>Operations and random sources used as concrete inputs.\<close>

definition always_times_out :: "nat \<Rightarrow> thrown + nat" where
  "always_times_out n = Inl (ErrorObject ''Navigation timeout'')"

definition rejects_with_string_once :: "nat \<Rightarrow> thrown + nat" where
  "rejects_with_string_once n = (if n < 1 then Inl (OtherValue ''boom'') else Inr 7)"

definition fails_twice :: "nat \<Rightarrow> thrown + nat" where
  "fails_twice n = (if n < 2 then Inl (ErrorObject ''Navigation timeout'') else Inr 7)"

definition no_jitter :: "nat \<Rightarrow> real" where
  "no_jitter n = 0"

definition half_jitter :: "nat \<Rightarrow> real" where
  "half_jitter n = 1 / 2"

section \<open>BrowserService: loading a page\<close>

datatype details =
    NoDetails
  | Issues "string list"
  | Text string
  | LoadDetails string int
  | StepDetails string string

record api_error =
  error :: string
  message :: string
  details :: details

record audit_options =
  timeout :: "int option"
  includeScreenshot :: bool
  screenshotType :: "string option"
  screenshotQuality :: "int option"
  userAgent :: "string option"

text \<open>
  A \<^verbatim>\<open>PageLoadResult\<close> as \<^verbatim>\<open>loadPage\<close> builds it: the successful shape with the final
  URL, the HTML, the status code, the load time and the headers, or the failed shape
  with the requested URL and an \<^verbatim>\<open>ApiError\<close>.
\<close>

datatype page_load_result =
    LoadSuccess string string int int "(string \<times> string) list"
  | LoadFailure string api_error

fun load_success :: "page_load_result \<Rightarrow> bool" where
  "load_success (LoadSuccess u h c t hs) = True"
| "load_success (LoadFailure u e) = False"

text \<open>\<^verbatim>\<open>error instanceof Error ? error.message : 'Unknown error'\<close>\<close>

fun message_or_unknown :: "thrown \<Rightarrow> string" where
  "message_or_unknown (ErrorObject m) = m"
| "message_or_unknown (OtherValue v) = ''Unknown error''"
| "message_or_unknown UndefinedValue = ''Unknown error''"

text \<open>\<^verbatim>\<open>error instanceof Error ? error.constructor.name : 'UnknownError'\<close>\<close>

fun error_type :: "thrown \<Rightarrow> string" where
  "error_type (ErrorObject m) = ''Error''"
| "error_type (OtherValue v) = ''UnknownError''"
| "error_type UndefinedValue = ''UnknownError''"

text \<open>\<^verbatim>\<open>options.timeout || 30000\<close>\<close>

definition timeout_or :: "int \<Rightarrow> audit_options \<Rightarrow> int" where
  "timeout_or d options = (case timeout options of None \<Rightarrow> d | Some t \<Rightarrow> if t = 0 then d else t)"

text \<open>
  What the browser does during one call of \<^verbatim>\<open>loadPage\<close>: whether the launch in
  \<^verbatim>\<open>initialize\<close> throws, whether \<^verbatim>\<open>this.browser\<close> is still set when the call resumes
  after \<^verbatim>\<open>await this.acquireSlot()\<close> (the \<^verbatim>\<open>disconnected\<close> handler and \<^verbatim>\<open>close()\<close> reset
  it to \<^verbatim>\<open>null\<close>), whether \<^verbatim>\<open>newPage\<close> throws, the first exception of the steps from
  \<^verbatim>\<open>configurePage\<close> to \<^verbatim>\<open>page.url()\<close> or else what they measured, and whether
  \<^verbatim>\<open>page.close\<close> throws.
\<close>

record loaded =
  finalUrl :: string
  html :: string
  statusCode :: int
  loadTimeInMs :: int
  domContentLoaded :: int
  headers :: "(string \<times> string) list"

record load_env =
  initialize :: "thrown option"
  browser_present :: bool
  newPage :: "thrown option"
  navigation :: "thrown + loaded"
  page_close :: "thrown option"

text \<open>
  A settled call: what its promise settled to, the service afterwards, how many times
  the call ran \<^verbatim>\<open>releaseSlot\<close>, and the waiting callers those releases resumed.
\<close>

record 'a completion =
  settled :: "thrown + 'a"
  service :: browser_service
  released :: nat
  resumed :: "caller list"

datatype 'a progress = Done "'a completion" | Waiting browser_service

definition errorResult :: "string \<Rightarrow> audit_options \<Rightarrow> thrown \<Rightarrow> page_load_result" where
  "errorResult url options e =
     LoadFailure url
       \<lparr>error = ''PAGE_LOAD_FAILED'',
        message = ''Failed to load page: '' @ message_or_unknown e,
        details = LoadDetails (error_type e) (timeout_or 30000 options)\<rparr>"

text \<open>
  \<^verbatim>\<open>loadPage\<close> from the point where \<^verbatim>\<open>await this.acquireSlot()\<close> has resolved, so the call
  holds a slot. The guard on \<^verbatim>\<open>this.browser\<close> throws before the \<^verbatim>\<open>try\<close>; inside it every
  exception becomes a failed \<^verbatim>\<open>PageLoadResult\<close>; the \<^verbatim>\<open>finally\<close> closes the page inside
  its own \<^verbatim>\<open>try/catch\<close> (so \<open>page_close\<close> changes nothing) and releases the slot.
\<close>

definition loadPage_resume ::
  "load_env \<Rightarrow> string \<Rightarrow> audit_options \<Rightarrow> browser_service \<Rightarrow> page_load_result completion" where
  "loadPage_resume env url options s =
     (if \<not> browser_present env
      then \<lparr>settled = Inl (ErrorObject ''Browser not initialized''), service = s,
            released = 0, resumed = []\<rparr>
      else
        (let result =
               (case newPage env of
                  Some e \<Rightarrow> errorResult url options e
                | None \<Rightarrow>
                    (case navigation env of
                       Inl e \<Rightarrow> errorResult url options e
                     | Inr p \<Rightarrow>
                         LoadSuccess (finalUrl p) (html p) (statusCode p)
                           (max (loadTimeInMs p) (domContentLoaded p)) (headers p)));
             r = releaseSlot s
         in \<lparr>settled = Inr result, service = fst r, released = 1, resumed = snd r\<rparr>))"

text \<open>
  The whole call for caller \<open>me\<close>: \<^verbatim>\<open>initialize\<close> rethrows a failed launch with a new
  message; \<^verbatim>\<open>acquireSlot\<close> either grants at once or leaves the call waiting in the queue,
  to be resumed by \<open>loadPage_resume\<close> on the state in which a release grants it the slot.
\<close>

definition loadPage ::
  "load_env \<Rightarrow> string \<Rightarrow> audit_options \<Rightarrow> caller \<Rightarrow> browser_service \<Rightarrow> page_load_result progress" where
  "loadPage env url options me s =
     (case initialize env of
        Some e \<Rightarrow>
          Done \<lparr>settled = Inl (ErrorObject (''Failed to initialize browser: '' @ message_or_unknown e)),
                service = s, released = 0, resumed = []\<rparr>
      | None \<Rightarrow>
          (case acquireSlot me s of
             (s1, []) \<Rightarrow> Waiting s1
           | (s1, g # gs) \<Rightarrow> Done (loadPage_resume env url options s1)))"

section \<open>BrowserService: screenshots\<close>

datatype capture_region = FullPage | Clip int int int int

record shot_opts =
  shot_type :: "string option"
  quality :: "int option"
  maxHeight :: "nat option"

text \<open>The options handed to \<^verbatim>\<open>page.screenshot\<close>: the type, the quality if set, the region.\<close>

record screenshot_request =
  req_type :: string
  req_quality :: "int option"
  req_region :: capture_region

text \<open>
  An entry of \<^verbatim>\<open>results\<close>: its file name, the path it is served under, the response
  status, and the request whose buffer it stores and returns as base64.
\<close>

record screenshot_info =
  filename :: string
  served_url :: string
  status :: "int option"
  captured :: screenshot_request

text \<open>The page dimensions are maxima of the DOM's pixel counts, so natural numbers.\<close>

record dims =
  width :: nat
  height :: nat
  response_status :: "int option"

record shot_env =
  shot_initialize :: "thrown option"
  shot_browser_present :: bool
  shot_newPage :: "thrown option"
  shot_navigation :: "thrown + dims"
  shot_capture :: "nat \<Rightarrow> thrown option"
  shot_page_close :: "thrown option"
  safeName :: string
  timestamp :: string

record part =
  part_y :: int
  part_height :: int
  suffix :: string

definition make_info :: "string \<Rightarrow> dims \<Rightarrow> screenshot_request \<Rightarrow> screenshot_info" where
  "make_info name d req =
     \<lparr>filename = name, served_url = ''/screenshots/'' @ name, status = response_status d,
      captured = req\<rparr>"

text \<open>
  The loop over \<^verbatim>\<open>parts\<close>: the \<open>k\<close>-th capture (\<^verbatim>\<open>page.screenshot\<close> and \<^verbatim>\<open>writeFile\<close>)
  either throws, which ends the whole call, or appends an entry to \<^verbatim>\<open>results\<close>.
\<close>

fun capture_parts ::
  "shot_env \<Rightarrow> dims \<Rightarrow> string \<Rightarrow> int option \<Rightarrow> string \<Rightarrow> part list \<Rightarrow> nat \<Rightarrow> screenshot_info list
     \<Rightarrow> thrown + screenshot_info list" where
  "capture_parts env d type q ext [] k results = Inr results"
| "capture_parts env d type q ext (p # ps) k results =
     (let clip = Clip 0 (max 0 \<lfloor>real_of_int (part_y p)\<rfloor>)
                   (max 1 \<lfloor>real (width d)\<rfloor>) (max 1 \<lfloor>real_of_int (part_height p)\<rfloor>)
      in case shot_capture env k of
           Some err \<Rightarrow> Inl err
         | None \<Rightarrow>
             capture_parts env d type q ext ps (Suc k)
               (results @
                [make_info (safeName env @ ''_'' @ timestamp env @ ''_'' @ suffix p @ ''.'' @ ext) d
                   \<lparr>req_type = type, req_quality = q, req_region = clip\<rparr>]))"

text \<open>The body of the \<^verbatim>\<open>try\<close> block of \<^verbatim>\<open>screenshotUrl\<close>.\<close>

definition screenshot_body :: "shot_env \<Rightarrow> shot_opts \<Rightarrow> thrown + screenshot_info list" where
  "screenshot_body env opts =
     (let type = (case shot_type opts of None \<Rightarrow> ''jpeg'' | Some t \<Rightarrow> if t = [] then ''jpeg'' else t);
          quality = (case quality opts of None \<Rightarrow> 80 | Some q \<Rightarrow> q);
          MAX_SINGLE_IMAGE_HEIGHT = (case maxHeight opts of None \<Rightarrow> 15000 | Some m \<Rightarrow> m)
      in case shot_navigation env of
           Inl err \<Rightarrow> Inl err
         | Inr d \<Rightarrow>
             (let ext = (if type = ''jpeg'' then ''jpg'' else ''png'');
                  q = (if type = ''jpeg'' then Some quality else None)
              in if height d \<le> MAX_SINGLE_IMAGE_HEIGHT then
                   (case shot_capture env 0 of
                      Some err \<Rightarrow> Inl err
                    | None \<Rightarrow>
                        Inr [make_info (safeName env @ ''_'' @ timestamp env @ ''.'' @ ext) d
                               \<lparr>req_type = type, req_quality = q, req_region = FullPage\<rparr>])
                 else
                   (let OVERLAP = 80;
                        half = \<lceil>real (height d) / 2\<rceil>;
                        topHeight = min (half + OVERLAP) (int (height d));
                        bottomStart = max (half - OVERLAP) 0;
                        bottomHeight = int (height d) - bottomStart;
                        parts = [\<lparr>part_y = 0, part_height = topHeight, suffix = ''part1''\<rparr>,
                                 \<lparr>part_y = bottomStart, part_height = bottomHeight, suffix = ''part2''\<rparr>]
                    in capture_parts env d type q ext parts 0 [])))"

text \<open>
  \<^verbatim>\<open>screenshotUrl\<close> from the point where \<^verbatim>\<open>await this.acquireSlot()\<close> has resolved. The
  guard on \<^verbatim>\<open>this.browser\<close> releases the slot before it throws. \<^verbatim>\<open>newPage\<close> is called before
  the \<^verbatim>\<open>try\<close>, so its exception leaves the function at once. In the \<^verbatim>\<open>finally\<close>,
  \<^verbatim>\<open>await page.close()\<close> is not guarded: its exception replaces the outcome of the
  \<^verbatim>\<open>try\<close> block and skips the release that follows it.
\<close>

definition screenshotUrl_resume ::
  "shot_env \<Rightarrow> shot_opts \<Rightarrow> browser_service \<Rightarrow> screenshot_info list completion" where
  "screenshotUrl_resume env opts s =
     (if \<not> shot_browser_present env
      then (let r = releaseSlot s
            in \<lparr>settled = Inl (ErrorObject ''Browser not initialized''), service = fst r,
                released = 1, resumed = snd r\<rparr>)
      else
        (case shot_newPage env of
           Some err \<Rightarrow> \<lparr>settled = Inl err, service = s, released = 0, resumed = []\<rparr>
         | None \<Rightarrow>
             (let outcome = screenshot_body env opts
              in case shot_page_close env of
                   Some err \<Rightarrow> \<lparr>settled = Inl err, service = s, released = 0, resumed = []\<rparr>
                 | None \<Rightarrow>
                     (let r = releaseSlot s
                      in \<lparr>settled = outcome, service = fst r, released = 1, resumed = snd r\<rparr>))))"

definition screenshotUrl ::
  "shot_env \<Rightarrow> shot_opts \<Rightarrow> caller \<Rightarrow> browser_service \<Rightarrow> screenshot_info list progress" where
  "screenshotUrl env opts me s =
     (case shot_initialize env of
        Some e \<Rightarrow>
          Done \<lparr>settled = Inl (ErrorObject (''Failed to initialize browser: '' @ message_or_unknown e)),
                service = s, released = 0, resumed = []\<rparr>
      | None \<Rightarrow>
          (case acquireSlot me s of
             (s1, []) \<Rightarrow> Waiting s1
           | (s1, g # gs) \<Rightarrow> Done (screenshotUrl_resume env opts s1)))"

text \<open>Concrete browser behaviours and options used as inputs.\<close>

definition default_options :: audit_options where
  "default_options =
     \<lparr>timeout = None, includeScreenshot = False, screenshotType = None,
      screenshotQuality = None, userAgent = None\<rparr>"

definition healthy_load :: load_env where
  "healthy_load =
     \<lparr>initialize = None, browser_present = True, newPage = None,
      navigation = Inr \<lparr>finalUrl = ''https://example.com/'', html = ''<html></html>'',
                        statusCode = 200, loadTimeInMs = 120, domContentLoaded = 80,
                        headers = []\<rparr>,
      page_close = None\<rparr>"

definition disconnected_midway :: load_env where
  "disconnected_midway =
     healthy_load\<lparr>navigation := Inl (ErrorObject ''Navigating frame was detached''),
                  page_close := Some (ErrorObject ''Protocol error: Connection closed'')\<rparr>"

definition browser_lost :: load_env where
  "browser_lost = healthy_load\<lparr>browser_present := False\<rparr>"

definition default_shot_opts :: shot_opts where
  "default_shot_opts = \<lparr>shot_type = None, quality = None, maxHeight = None\<rparr>"

definition all_captures_succeed :: "nat \<Rightarrow> thrown option" where
  "all_captures_succeed k = None"

definition tall_page :: shot_env where
  "tall_page =
     \<lparr>shot_initialize = None, shot_browser_present = True, shot_newPage = None,
      shot_navigation = Inr \<lparr>width = 1280, height = 20001, response_status = Some 200\<rparr>,
      shot_capture = all_captures_succeed, shot_page_close = None,
      safeName = ''https___example_com_'', timestamp = ''1700000000000''\<rparr>"

definition short_page :: shot_env where
  "short_page =
     tall_page\<lparr>shot_navigation := Inr \<lparr>width = 1280, height = 15000, response_status = Some 200\<rparr>\<rparr>"

definition newPage_throws :: shot_env where
  "newPage_throws = tall_page\<lparr>shot_newPage := Some (ErrorObject ''Target closed'')\<rparr>"

definition page_close_throws :: shot_env where
  "page_close_throws = tall_page\<lparr>shot_page_close := Some (ErrorObject ''Target closed'')\<rparr>"

definition one_slot_taken :: browser_service where
  "one_slot_taken = \<lparr>maxConcurrentPages = 1, currentSlots = 1, queue = []\<rparr>"

section \<open>BrowserService: screenshot cleanup\<close>

text \<open>
  \<^verbatim>\<open>Number(process.env.SCREENSHOT_TTL_MS) || 30 * 60 * 1000\<close>, on an unset variable or an
  integer number of milliseconds.
\<close>

definition screenshotTTL_of_env :: "int option \<Rightarrow> int" where
  "screenshotTTL_of_env v =
     (case v of None \<Rightarrow> 30 * 60 * 1000 | Some n \<Rightarrow> if n = 0 then 30 * 60 * 1000 else n)"

text \<open>The delay handed to \<^verbatim>\<open>setInterval\<close> in \<^verbatim>\<open>initialize\<close>, in milliseconds.\<close>

definition cleanup_interval :: "int \<Rightarrow> int" where
  "cleanup_interval screenshotTTL = max (60 * 1000) \<lfloor>real_of_int screenshotTTL / 6\<rfloor>"

text \<open>
  \<^verbatim>\<open>initialize\<close> installs the timer once: \<^verbatim>\<open>cleanupIntervalHandle\<close> is \<open>None\<close> before, and
  afterwards holds the interval of the timer that runs \<^verbatim>\<open>cleanupScreenshots\<close>.
\<close>

definition start_cleanup :: "int \<Rightarrow> int option \<Rightarrow> int option" where
  "start_cleanup screenshotTTL cleanupIntervalHandle =
     (case cleanupIntervalHandle of
        None \<Rightarrow> Some (cleanup_interval screenshotTTL)
      | Some h \<Rightarrow> Some h)"

text \<open>
  The screenshots directory maps a file name to its \<^verbatim>\<open>mtimeMs\<close>. A sweep sees whether
  the directory exists, what \<^verbatim>\<open>readdir\<close> lists, the clock read once before the loop,
  and for which files \<^verbatim>\<open>stat\<close> or \<^verbatim>\<open>unlink\<close> rejects; \<^verbatim>\<open>stat\<close> also rejects for a name that
  is not in the directory.
\<close>

type_synonym directory = "string \<rightharpoonup> real"

record cleanup_env =
  is_directory :: bool
  readdir :: "thrown + string list"
  now :: int
  stat_rejects :: "string \<Rightarrow> bool"
  unlink_rejects :: "string \<Rightarrow> bool"

text \<open>One iteration of the loop: its \<^verbatim>\<open>try/catch\<close> turns every rejection into a warning.\<close>

definition cleanup_file :: "cleanup_env \<Rightarrow> int \<Rightarrow> string \<Rightarrow> directory \<Rightarrow> directory" where
  "cleanup_file env screenshotTTL file dir =
     (let threshold = now env - screenshotTTL
      in if stat_rejects env file then dir
         else
           (case dir file of
              None \<Rightarrow> dir
            | Some mtimeMs \<Rightarrow>
                if mtimeMs < real_of_int threshold
                then (if unlink_rejects env file then dir else dir(file := None))
                else dir))"

definition cleanupScreenshots :: "cleanup_env \<Rightarrow> int \<Rightarrow> directory \<Rightarrow> directory" where
  "cleanupScreenshots env screenshotTTL dir =
     (if \<not> is_directory env then dir
      else
        (case readdir env of
           Inl err \<Rightarrow> dir
         | Inr files \<Rightarrow> fold (cleanup_file env screenshotTTL) files dir))"

text \<open>The age of a file at the sweep, and whether the sweep is due to delete it.\<close>

definition age :: "cleanup_env \<Rightarrow> real \<Rightarrow> real" where
  "age env mtimeMs = real_of_int (now env) - mtimeMs"

definition expired :: "cleanup_env \<Rightarrow> int \<Rightarrow> directory \<Rightarrow> string \<Rightarrow> bool" where
  "expired env screenshotTTL dir file =
     (case dir file of None \<Rightarrow> False | Some mtimeMs \<Rightarrow> real_of_int screenshotTTL < age env mtimeMs)"

text \<open>A sweep used as a concrete input: three files, the second cannot be unlinked.\<close>

definition sweep_files :: directory where
  "sweep_files =
     [''old.jpg'' \<mapsto> 1000, ''locked.jpg'' \<mapsto> 2000, ''fresh.png'' \<mapsto> 1900000]"

definition unlink_locked :: "string \<Rightarrow> bool" where
  "unlink_locked file = (file = ''locked.jpg'')"

definition stat_never_rejects :: "string \<Rightarrow> bool" where
  "stat_never_rejects file = False"

definition sweep_env :: cleanup_env where
  "sweep_env =
     \<lparr>is_directory = True, readdir = Inr [''locked.jpg'', ''old.jpg'', ''fresh.png''],
      now = 2000000, stat_rejects = stat_never_rejects, unlink_rejects = unlink_locked\<rparr>"

section \<open>URL validation\<close>

text \<open>
  The WHATWG \<^verbatim>\<open>URL\<close> class and the zod string check are libraries: \<open>new_URL\<close> returns
  the parsed URL or the \<^verbatim>\<open>TypeError\<close> it throws, \<open>new_URL_base\<close> is the constructor with
  a base, \<open>zod_url\<close> is \<^verbatim>\<open>z.string().url()\<close> and \<open>zod_issues\<close> the issues zod reports.
\<close>

record parsed_url =
  href :: string
  protocol :: string
  hostname :: string
  port :: string
  pathname :: string

record url_library =
  new_URL :: "string \<Rightarrow> thrown + parsed_url"
  new_URL_base :: "string \<Rightarrow> string \<Rightarrow> thrown + parsed_url"
  zod_url :: "string \<Rightarrow> bool"
  zod_issues :: "string \<Rightarrow> string list"

datatype validation_result = Valid string parsed_url | Invalid api_error

text \<open>\<^verbatim>\<open>String.prototype.trim\<close> on the white space and line terminators of ASCII.\<close>

definition is_space :: "char \<Rightarrow> bool" where
  "is_space c \<longleftrightarrow> c \<in> set [CHR 0x09, CHR 0x0A, CHR 0x0B, CHR 0x0C, CHR 0x0D, CHR 0x20]"

definition trim :: "string \<Rightarrow> string" where
  "trim s = rev (dropWhile is_space (rev (dropWhile is_space s)))"

text \<open>\<^verbatim>\<open>String.prototype.includes\<close>\<close>

fun str_includes :: "string \<Rightarrow> string \<Rightarrow> bool" where
  "str_includes [] sub = (sub = [])"
| "str_includes (c # cs) sub = (take (length sub) (c # cs) = sub \<or> str_includes cs sub)"

text \<open>\<^verbatim>\<open>String.prototype.toLowerCase\<close> on ASCII letters.\<close>

definition toLowerCase :: "string \<Rightarrow> string" where
  "toLowerCase s =
     map (\<lambda>c. if 65 \<le> (of_char c :: nat) \<and> (of_char c :: nat) \<le> 90
                then char_of ((of_char c :: nat) + 32) else c) s"

text \<open>\<^verbatim>\<open>parseInt(s, 10)\<close>: leading white space, an optional sign, then digits; \<open>None\<close> is NaN.\<close>

definition is_digit :: "char \<Rightarrow> bool" where
  "is_digit c \<longleftrightarrow> 48 \<le> (of_char c :: nat) \<and> (of_char c :: nat) \<le> 57"

definition digits_value :: "string \<Rightarrow> nat" where
  "digits_value ds = foldl (\<lambda>a c. 10 * a + ((of_char c :: nat) - 48)) 0 ds"

definition parseInt :: "string \<Rightarrow> int option" where
  "parseInt s =
     (let s1 = dropWhile is_space s;
          negative = (case s1 of [] \<Rightarrow> False | c # r \<Rightarrow> c = CHR ''-'');
          s2 = (case s1 of [] \<Rightarrow> [] | c # r \<Rightarrow> if c = CHR ''-'' \<or> c = CHR ''+'' then r else s1);
          ds = takeWhile is_digit s2
      in if ds = [] then None
         else Some (if negative then - int (digits_value ds) else int (digits_value ds)))"

text \<open>
  \<^verbatim>\<open>urlSchema.safeParse\<close>: the zod URL check refined by the protocol of the parsed URL,
  where a \<^verbatim>\<open>URL\<close> constructor that throws counts as a failed refinement.
\<close>

definition urlSchema_safeParse :: "url_library \<Rightarrow> string \<Rightarrow> string list + string" where
  "urlSchema_safeParse lib url =
     (if zod_url lib url \<and>
         (case new_URL lib url of
            Inl e \<Rightarrow> False
          | Inr parsedUrl \<Rightarrow> protocol parsedUrl = ''http:'' \<or> protocol parsedUrl = ''https:'')
      then Inr url else Inl (zod_issues lib url))"

definition blockedDomains :: "string list" where
  "blockedDomains = []"

definition blockedPatterns :: "(string \<Rightarrow> bool) list" where
  "blockedPatterns = []"

definition isBlockedDomain :: "string \<Rightarrow> bool" where
  "isBlockedDomain h =
     (if toLowerCase h \<in> set blockedDomains then True
      else list_ex (\<lambda>pattern. pattern (toLowerCase h)) blockedPatterns)"

definition performAdditionalValidations :: "parsed_url \<Rightarrow> string list" where
  "performAdditionalValidations url =
     (if 2048 < length (href url) then [''URL is too long (maximum 2048 characters)''] else []) @
     (if port url \<noteq> [] then
        (case parseInt (port url) of
           None \<Rightarrow> [''Invalid port number'']
         | Some portNum \<Rightarrow> if portNum < 1 \<or> 65535 < portNum then [''Invalid port number''] else [])
      else []) @
     (if str_includes (pathname url) ''..'' \<or> str_includes (pathname url) ''//''
      then [''URL contains suspicious path patterns''] else []) @
     (if protocol url \<noteq> ''http:'' \<and> protocol url \<noteq> ''https:''
      then [''Only HTTP and HTTPS protocols are supported''] else [])"

text \<open>The body of the \<^verbatim>\<open>try\<close> block of \<^verbatim>\<open>validateUrl\<close>; the only call that can throw is the \<^verbatim>\<open>URL\<close> constructor.\<close>

definition validateUrl_try :: "url_library \<Rightarrow> string \<Rightarrow> thrown + validation_result" where
  "validateUrl_try lib urlString =
     (if urlString = [] \<or> trim urlString = [] then
        Inr (Invalid \<lparr>error = ''MISSING_URL'', message = ''URL parameter is required'',
                      details = NoDetails\<rparr>)
      else
        (let cleanUrl = trim urlString
         in case urlSchema_safeParse lib cleanUrl of
              Inl issues \<Rightarrow>
                Inr (Invalid
                  \<lparr>error = ''INVALID_URL_FORMAT'',
                   message = ''Invalid URL format. Please provide a valid HTTP or HTTPS URL.'',
                   details = Issues issues\<rparr>)
            | Inr vdata \<Rightarrow>
                (case new_URL lib vdata of
                   Inl e \<Rightarrow> Inl e
                 | Inr parsedUrl \<Rightarrow>
                     if hostname parsedUrl = [] \<or> trim (hostname parsedUrl) = [] then
                       Inr (Invalid \<lparr>error = ''INVALID_HOSTNAME'',
                                     message = ''URL must have a valid hostname'',
                                     details = NoDetails\<rparr>)
                     else if isBlockedDomain (hostname parsedUrl) then
                       Inr (Invalid \<lparr>error = ''BLOCKED_DOMAIN'',
                                     message = ''This domain is not allowed for auditing'',
                                     details = NoDetails\<rparr>)
                     else
                       (let validationErrors = performAdditionalValidations parsedUrl
                        in if validationErrors \<noteq> [] then
                             Inr (Invalid \<lparr>error = ''URL_VALIDATION_FAILED'',
                                           message = ''URL failed validation checks'',
                                           details = Issues validationErrors\<rparr>)
                           else Inr (Valid (href parsedUrl) parsedUrl)))))"

text \<open>\<^verbatim>\<open>validateUrl\<close>: the \<^verbatim>\<open>catch\<close> turns whatever the body throws into a result.\<close>

definition validateUrl :: "url_library \<Rightarrow> string \<Rightarrow> thrown + validation_result" where
  "validateUrl lib urlString =
     (case validateUrl_try lib urlString of
        Inl e \<Rightarrow>
          Inr (Invalid \<lparr>error = ''URL_PARSE_ERROR'',
                        message = ''Failed to parse the provided URL'',
                        details = Text (message_or_unknown e)\<rparr>)
      | Inr r \<Rightarrow> Inr r)"

section \<open>HtmlParser: page resources\<close>

record link_details =
  link_href :: string
  textContent :: string
  isInternal :: bool
  rel :: "string option"

record script_details =
  src :: "string option"
  inlineContent :: "string option"

record style_details =
  style_href :: "string option"
  style_inlineContent :: "string option"

record page_resources =
  links :: "link_details list"
  scripts :: "script_details list"
  styles :: "style_details list"

text \<open>
  What cheerio finds in a document: the \<^verbatim>\<open>script\<close> elements with their \<^verbatim>\<open>src\<close> attribute
  and inner HTML, what \<^verbatim>\<open>extractLinks\<close> and \<^verbatim>\<open>extractStyles\<close> return, the other
  extracted content, and the number of elements.
\<close>

record script_element =
  attr_src :: "string option"
  inner_html :: "string option"

record document =
  script_elements :: "script_element list"
  extractLinks :: "link_details list"
  extractStyles :: "style_details list"
  content :: string
  totalElements :: nat

text \<open>\<^verbatim>\<open>resolveUrl\<close>: the URL resolved against the base, or the input when the constructor throws.\<close>

definition resolveUrl :: "url_library \<Rightarrow> string \<Rightarrow> string \<Rightarrow> string" where
  "resolveUrl lib relativeUrl baseUrl =
     (case new_URL_base lib relativeUrl baseUrl of
        Inl e \<Rightarrow> relativeUrl
      | Inr u \<Rightarrow> href u)"

text \<open>One iteration of the \<^verbatim>\<open>each\<close> in \<^verbatim>\<open>extractScripts\<close>: the entries it pushes.\<close>

definition extract_script :: "url_library \<Rightarrow> string \<Rightarrow> script_element \<Rightarrow> script_details list" where
  "extract_script lib baseUrl element =
     (case attr_src element of
        Some s \<Rightarrow>
          if s \<noteq> [] then [\<lparr>src = Some (resolveUrl lib s baseUrl), inlineContent = None\<rparr>]
          else
            (case inner_html element of
               None \<Rightarrow> []
             | Some inl \<Rightarrow>
                 if inl \<noteq> [] \<and> trim inl \<noteq> [] then
                   [\<lparr>src = None,
                     inlineContent =
                       Some (if 1000 < length inl then take 1000 inl @ ''...'' else inl)\<rparr>]
                 else [])
      | None \<Rightarrow>
          (case inner_html element of
             None \<Rightarrow> []
           | Some inl \<Rightarrow>
               if inl \<noteq> [] \<and> trim inl \<noteq> [] then
                 [\<lparr>src = None,
                   inlineContent =
                     Some (if 1000 < length inl then take 1000 inl @ ''...'' else inl)\<rparr>]
               else []))"

definition extractScripts :: "url_library \<Rightarrow> string \<Rightarrow> document \<Rightarrow> script_details list" where
  "extractScripts lib baseUrl doc = concat (map (extract_script lib baseUrl) (script_elements doc))"

definition extractPageResources :: "url_library \<Rightarrow> string \<Rightarrow> document \<Rightarrow> page_resources" where
  "extractPageResources lib baseUrl doc =
     \<lparr>links = extractLinks doc, scripts = extractScripts lib baseUrl doc, styles = extractStyles doc\<rparr>"

text \<open>The audit data without \<^verbatim>\<open>performance\<close>, as \<^verbatim>\<open>extractAuditData\<close> returns it.\<close>

record audit_data =
  data_url :: string
  data_statusCode :: int
  data_content :: string
  resources :: page_resources

definition extractAuditData :: "url_library \<Rightarrow> string \<Rightarrow> document \<Rightarrow> int \<Rightarrow> audit_data" where
  "extractAuditData lib baseUrl doc code =
     \<lparr>data_url = baseUrl, data_statusCode = code, data_content = content doc,
      resources = extractPageResources lib baseUrl doc\<rparr>"

section \<open>WebsiteAuditor\<close>

text \<open>
  What one audit meets: the URL libraries, \<^verbatim>\<open>cheerio.load\<close> (the document of an HTML
  text, or what it throws), the outcome of the \<open>n\<close>-th call of \<^verbatim>\<open>browserService.loadPage\<close>
  for a URL and options, the numbers \<^verbatim>\<open>Math.random\<close> returns, and the outcome of
  \<^verbatim>\<open>browserService.screenshotUrl\<close> for a URL and options.
\<close>

record audit_env =
  url_lib :: url_library
  cheerio_load :: "string \<Rightarrow> thrown + document"
  loadPage_call :: "string \<Rightarrow> audit_options \<Rightarrow> nat \<Rightarrow> thrown + page_load_result"
  math_random :: "nat \<Rightarrow> real"
  screenshotUrl_call :: "string \<Rightarrow> shot_opts \<Rightarrow> thrown + screenshot_info list"

text \<open>The calls an audit makes on the browser service and the delays it waits, in order.\<close>

datatype effect = CalledLoadPage | Slept real | CalledScreenshotUrl

fun effect_of :: "retry_event \<Rightarrow> effect" where
  "effect_of Invoked = CalledLoadPage"
| "effect_of (Waited d) = Slept d"

record website_audit_result =
  result_url :: string
  result_statusCode :: int
  result_content :: string
  performance_loadTimeInMs :: int
  result_resources :: page_resources
  response_headers :: "(string \<times> string) list"
  response_loadTimeInMs :: int
  screenshot :: "screenshot_info list option"
  screenshotError :: "string option"

record result_details =
  details_step :: "string option"
  details_totalElements :: "nat option"

record audit_result =
  success :: bool
  data :: "website_audit_result option"
  result_error :: "api_error option"
  result_details :: "result_details option"

text \<open>
  \<^verbatim>\<open>loadPageWithRetry\<close>: the wrapped operation rethrows what \<^verbatim>\<open>loadPage\<close> throws and
  throws a new \<^verbatim>\<open>Error\<close> with the message of a failed result; two retries, base delay 1000.
\<close>

definition load_operation ::
  "audit_env \<Rightarrow> string \<Rightarrow> audit_options \<Rightarrow> nat \<Rightarrow> thrown + page_load_result" where
  "load_operation env url options n =
     (case loadPage_call env url options n of
        Inl e \<Rightarrow> Inl e
      | Inr (LoadFailure u err) \<Rightarrow>
          Inl (ErrorObject (if message err = [] then ''Page loading failed'' else message err))
      | Inr (LoadSuccess u h code t hs) \<Rightarrow> Inr (LoadSuccess u h code t hs))"

definition loadPageWithRetry ::
  "audit_env \<Rightarrow> string \<Rightarrow> audit_options \<Rightarrow> (thrown + page_load_result) \<times> retry_event list" where
  "loadPageWithRetry env url options =
     retryWithBackoff (load_operation env url options) 2 1000 (math_random env)"

text \<open>\<^verbatim>\<open>parseHtmlContent\<close>: \<^verbatim>\<open>createHtmlParser\<close>, then \<^verbatim>\<open>extractAuditData(200)\<close>.\<close>

definition parseHtmlContent :: "audit_env \<Rightarrow> string \<Rightarrow> string \<Rightarrow> thrown + audit_data" where
  "parseHtmlContent env h url =
     (case cheerio_load env h of
        Inl e \<Rightarrow> Inl e
      | Inr doc \<Rightarrow> Inr (extractAuditData (url_lib env) url doc 200))"

text \<open>\<^verbatim>\<open>String(shotErr instanceof Error ? shotErr.message : shotErr)\<close>\<close>

fun error_string :: "thrown \<Rightarrow> string" where
  "error_string (ErrorObject m) = m"
| "error_string (OtherValue v) = v"
| "error_string UndefinedValue = ''undefined''"

text \<open>The result built by the outer \<^verbatim>\<open>catch\<close> of \<^verbatim>\<open>auditWebsite\<close>.\<close>

definition audit_failed :: "thrown \<Rightarrow> audit_result" where
  "audit_failed e =
     \<lparr>success = False, data = None,
      result_error = Some \<lparr>error = ''AUDIT_FAILED'',
                           message = ''Audit failed: '' @ message_or_unknown e,
                           details = StepDetails ''unknown'' (error_type e)\<rparr>,
      result_details = None\<rparr>"

definition shotOpts :: "audit_options \<Rightarrow> shot_opts" where
  "shotOpts options =
     \<lparr>shot_type = (case screenshotType options of
                     None \<Rightarrow> None
                   | Some t \<Rightarrow> if t = [] then None else Some t),
      quality = screenshotQuality options, maxHeight = None\<rparr>"

text \<open>
  \<^verbatim>\<open>auditWebsite\<close>, with the effects it caused. Every exception inside the outer \<^verbatim>\<open>try\<close>
  ends in \<open>audit_failed\<close>; the screenshot has its own \<^verbatim>\<open>try/catch\<close>.
\<close>

definition auditWebsite :: "audit_env \<Rightarrow> string \<Rightarrow> audit_options \<Rightarrow> audit_result \<times> effect list" where
  "auditWebsite env url options =
     (case validateUrl (url_lib env) url of
        Inl e \<Rightarrow> (audit_failed e, [])
      | Inr (Invalid err) \<Rightarrow>
          (\<lparr>success = False, data = None, result_error = Some err, result_details = None\<rparr>, [])
      | Inr (Valid validatedUrl parsedUrl) \<Rightarrow>
          (let loaded = loadPageWithRetry env validatedUrl options;
               effects = map effect_of (snd loaded)
           in case fst loaded of
                Inl e \<Rightarrow> (audit_failed e, effects)
              | Inr (LoadFailure u err) \<Rightarrow>
                  (\<lparr>success = False, data = None, result_error = Some err,
                    result_details =
                      Some \<lparr>details_step = Some ''page_loading'', details_totalElements = None\<rparr>\<rparr>,
                   effects)
              | Inr (LoadSuccess u h code t hs) \<Rightarrow>
                  (case parseHtmlContent env h u of
                     Inl e \<Rightarrow> (audit_failed e, effects)
                   | Inr parseResult \<Rightarrow>
                       (let modifiedResources = (resources parseResult)\<lparr>scripts := []\<rparr>;
                            auditResult =
                              \<lparr>result_url = u, result_statusCode = code,
                               result_content = data_content parseResult,
                               performance_loadTimeInMs = t,
                               result_resources = modifiedResources,
                               response_headers = hs, response_loadTimeInMs = t,
                               screenshot = None, screenshotError = None\<rparr>;
                            withShots =
                              (if includeScreenshot options then
                                 (case screenshotUrl_call env u (shotOpts options) of
                                    Inr shots \<Rightarrow> auditResult\<lparr>screenshot := Some shots\<rparr>
                                  | Inl shotErr \<Rightarrow>
                                      auditResult\<lparr>screenshot := Some [],
                                                  screenshotError := Some (error_string shotErr)\<rparr>)
                               else auditResult);
                            effects' =
                              (if includeScreenshot options then effects @ [CalledScreenshotUrl]
                               else effects)
                        in case cheerio_load env h of
                             Inl e \<Rightarrow> (audit_failed e, effects')
                           | Inr doc \<Rightarrow>
                               (\<lparr>success = True, data = Some withShots, result_error = None,
                                 result_details =
                                   Some \<lparr>details_step = None,
                                         details_totalElements = Some (totalElements doc)\<rparr>\<rparr>,
                                effects')))))"

text \<open>A concrete audit used as an input: one reachable page whose screenshot times out.\<close>

definition example_url :: parsed_url where
  "example_url =
     \<lparr>href = ''https://example.com/'', protocol = ''https:'', hostname = ''example.com'',
      port = [], pathname = ''/''\<rparr>"

definition example_new_URL :: "string \<Rightarrow> thrown + parsed_url" where
  "example_new_URL s =
     (if s = ''https://example.com'' then Inr example_url else Inl (ErrorObject ''Invalid URL''))"

definition example_new_URL_base :: "string \<Rightarrow> string \<Rightarrow> thrown + parsed_url" where
  "example_new_URL_base r b = Inl (ErrorObject ''Invalid URL'')"

definition example_zod_url :: "string \<Rightarrow> bool" where
  "example_zod_url s = (s = ''https://example.com'')"

definition example_zod_issues :: "string \<Rightarrow> string list" where
  "example_zod_issues s = [''Invalid url'']"

definition example_lib :: url_library where
  "example_lib =
     \<lparr>new_URL = example_new_URL, new_URL_base = example_new_URL_base,
      zod_url = example_zod_url, zod_issues = example_zod_issues\<rparr>"

definition example_doc :: document where
  "example_doc =
     \<lparr>script_elements = [\<lparr>attr_src = None, inner_html = Some ''console.log(1)''\<rparr>],
      extractLinks = [\<lparr>link_href = ''https://example.com/about'', textContent = ''About'',
                       isInternal = True, rel = None\<rparr>],
      extractStyles = [\<lparr>style_href = None, style_inlineContent = Some ''body{}''\<rparr>],
      content = ''Example Domain'', totalElements = 5\<rparr>"

definition example_cheerio_load :: "string \<Rightarrow> thrown + document" where
  "example_cheerio_load h = Inr example_doc"

definition example_loadPage_call ::
  "string \<Rightarrow> audit_options \<Rightarrow> nat \<Rightarrow> thrown + page_load_result" where
  "example_loadPage_call u ao n = Inr (LoadSuccess ''https://example.com/'' ''<html></html>'' 200 120 [])"

definition example_screenshotUrl_call :: "string \<Rightarrow> shot_opts \<Rightarrow> thrown + screenshot_info list" where
  "example_screenshotUrl_call u so = Inl (ErrorObject ''Navigation timeout of 30000 ms exceeded'')"

definition example_env :: audit_env where
  "example_env =
     \<lparr>url_lib = example_lib, cheerio_load = example_cheerio_load,
      loadPage_call = example_loadPage_call, math_random = no_jitter,
      screenshotUrl_call = example_screenshotUrl_call\<rparr>"

definition with_screenshot :: audit_options where
  "with_screenshot = default_options\<lparr>includeScreenshot := True\<rparr>"

section \<open>Properties\<close>

subsection \<open>Capacity\<close>

lemma maxConcurrentPages_step: "maxConcurrentPages (fst (step c s)) = maxConcurrentPages s"
  by (cases c) (auto simp: acquireSlot_def releaseSlot_def Let_def split: list.splits)

lemma slots_inv_step:
  assumes "1 \<le> maxConcurrentPages s" and "slots_inv s"
  shows "slots_inv (fst (step c s))"
proof (cases c)
  case (AcquireSlot w)
  with assms show ?thesis
    by (auto simp: slots_inv_def acquireSlot_def)
next
  case ReleaseSlot
  with assms show ?thesis
    by (cases "queue s") (auto simp: slots_inv_def releaseSlot_def Let_def)
qed

lemma run_append:
  "run (cs @ ds) s = (case run cs s of (s1, g1) \<Rightarrow> (case run ds s1 of (s2, g2) \<Rightarrow> (s2, g1 @ g2)))"
  by (induction cs arbitrary: s) (auto split: prod.splits)

lemma slots_inv_run:
  "1 \<le> maxConcurrentPages s \<Longrightarrow> slots_inv s \<Longrightarrow>
     slots_inv (fst (run cs s)) \<and> maxConcurrentPages (fst (run cs s)) = maxConcurrentPages s"
proof (induction cs arbitrary: s)
  case Nil
  then show ?case by simp
next
  case (Cons c cs)
  obtain s1 g1 where st: "step c s = (s1, g1)" by (cases "step c s")
  have m: "maxConcurrentPages s1 = maxConcurrentPages s"
    using maxConcurrentPages_step [of c s] st by simp
  have i: "slots_inv s1"
    using slots_inv_step [OF Cons.prems, of c] st by simp
  from Cons.IH [of s1] m i Cons.prems(1) st show ?case
    by (auto split: prod.splits)
qed

lemma full_no_grant:
  "maxConcurrentPages s \<le> currentSlots s \<Longrightarrow> ReleaseSlot \<notin> set ds \<Longrightarrow> snd (run ds s) = []"
proof (induction ds arbitrary: s)
  case Nil
  then show ?case by simp
next
  case (Cons d ds)
  then obtain w where d: "d = AcquireSlot w" by (cases d) auto
  let ?s1 = "s\<lparr>queue := queue s @ [w]\<rparr>"
  have "step d s = (?s1, [])"
    using Cons.prems(1) d by (simp add: acquireSlot_def)
  moreover have "snd (run ds ?s1) = []"
    using Cons.IH [of ?s1] Cons.prems by simp
  ultimately show ?case by (simp split: prod.splits)
qed

lemma new_service_inv: "slots_inv (new_service n) \<longleftrightarrow> 0 \<le> n"
  by (simp add: slots_inv_def new_service_def)

text \<open>
  C2. With a capacity \<open>N\<close> of at least one slot, after every prefix of every interleaving
  of \<^verbatim>\<open>acquireSlot\<close> and \<^verbatim>\<open>releaseSlot\<close> calls the counter \<^verbatim>\<open>currentSlots\<close> is at most \<open>N\<close>;
  and when \<open>N\<close> slots are outstanding, a further \<^verbatim>\<open>acquireSlot\<close> is not resolved by its own
  call nor by any later sequence of calls that contains no \<^verbatim>\<open>releaseSlot\<close>.
\<close>

theorem slots_never_exceed_capacity:
  assumes "1 \<le> N"
  shows "currentSlots (fst (run (take n cs) (new_service N))) \<le> N \<and>
         (currentSlots (fst (run cs (new_service N))) = N \<longrightarrow>
            snd (acquireSlot w (fst (run cs (new_service N)))) = [] \<and>
            (ReleaseSlot \<notin> set ds \<longrightarrow>
               snd (run ds (fst (acquireSlot w (fst (run cs (new_service N)))))) = []))"
proof -
  have m: "1 \<le> maxConcurrentPages (new_service N)"
    using assms by (simp add: new_service_def)
  have i: "slots_inv (new_service N)"
    using assms by (simp add: new_service_inv)
  have cap: "maxConcurrentPages (new_service N) = N"
    by (simp add: new_service_def)
  have a: "currentSlots (fst (run (take n cs) (new_service N))) \<le> N"
    using slots_inv_run [OF m i, of "take n cs"] cap by (simp add: slots_inv_def)
  let ?s = "fst (run cs (new_service N))"
  have ms: "maxConcurrentPages ?s = N"
    using slots_inv_run [OF m i, of cs] cap by simp
  have b: "snd (acquireSlot w ?s) = []" if "currentSlots ?s = N"
    using that ms by (simp add: acquireSlot_def)
  have c: "snd (run ds (fst (acquireSlot w ?s))) = []"
    if "currentSlots ?s = N" and "ReleaseSlot \<notin> set ds"
  proof (rule full_no_grant)
    show "maxConcurrentPages (fst (acquireSlot w ?s)) \<le> currentSlots (fst (acquireSlot w ?s))"
      using that(1) ms by (simp add: acquireSlot_def)
    show "ReleaseSlot \<notin> set ds" by (rule that(2))
  qed
  from a b c show ?thesis by blast
qed

theorem slots_never_exceed_capacity_witness:
  "(1::int) \<le> 2 \<and>
   currentSlots (fst (run (take 3 [AcquireSlot 1, AcquireSlot 2, AcquireSlot 3, ReleaseSlot])
                        (new_service 2))) \<le> 2 \<and>
   currentSlots (fst (run [AcquireSlot 1, AcquireSlot 2] (new_service 2))) = 2 \<and>
   snd (acquireSlot 3 (fst (run [AcquireSlot 1, AcquireSlot 2] (new_service 2)))) = [] \<and>
   ReleaseSlot \<notin> set [AcquireSlot 4] \<and>
   snd (run [AcquireSlot 4]
          (fst (acquireSlot 3 (fst (run [AcquireSlot 1, AcquireSlot 2] (new_service 2)))))) = [] \<and>
   snd (run [ReleaseSlot]
          (fst (acquireSlot 3 (fst (run [AcquireSlot 1, AcquireSlot 2] (new_service 2)))))) = [3]"
proof -
  have h: "(1::int) \<le> 2" by simp
  have e: "currentSlots (fst (run [AcquireSlot 1, AcquireSlot 2] (new_service 2))) = 2"
    by (simp add: new_service_def acquireSlot_def)
  have r: "snd (run [ReleaseSlot]
          (fst (acquireSlot 3 (fst (run [AcquireSlot 1, AcquireSlot 2] (new_service 2)))))) = [3]"
    by (simp add: new_service_def acquireSlot_def releaseSlot_def)
  show ?thesis
    using slots_never_exceed_capacity [OF h, of 3
        "[AcquireSlot 1, AcquireSlot 2, AcquireSlot 3, ReleaseSlot]" 3 "[AcquireSlot 4]"]
      slots_never_exceed_capacity [OF h, of 0 "[AcquireSlot 1, AcquireSlot 2]" 3 "[AcquireSlot 4]"]
      e r
    by simp
qed

subsection \<open>Grant order\<close>

lemma waiting_inv_step: "waiting_inv s \<Longrightarrow> waiting_inv (fst (step c s))"
proof (cases c)
  case (AcquireSlot w)
  assume "waiting_inv s"
  with AcquireSlot show ?thesis
    by (auto simp: waiting_inv_def acquireSlot_def)
next
  case ReleaseSlot
  assume "waiting_inv s"
  with ReleaseSlot show ?thesis
    by (cases "queue s") (auto simp: waiting_inv_def releaseSlot_def Let_def)
qed

lemma step_order:
  assumes "waiting_inv s"
  shows "queue s @ arrivals [c] = snd (step c s) @ queue (fst (step c s))"
proof (cases c)
  case (AcquireSlot w)
  with assms show ?thesis
    by (auto simp: waiting_inv_def acquireSlot_def)
next
  case ReleaseSlot
  then show ?thesis
    by (cases "queue s") (auto simp: releaseSlot_def Let_def)
qed

lemma run_order:
  "waiting_inv s \<Longrightarrow> queue s @ arrivals cs = snd (run cs s) @ queue (fst (run cs s))"
proof (induction cs arbitrary: s)
  case Nil
  then show ?case by simp
next
  case (Cons c cs)
  obtain s1 g1 where st: "step c s = (s1, g1)" by (cases "step c s")
  obtain s2 g2 where rn: "run cs s1 = (s2, g2)" by (cases "run cs s1")
  have w1: "waiting_inv s1"
    using waiting_inv_step [OF Cons.prems, of c] st by simp
  have one: "queue s @ arrivals [c] = g1 @ queue s1"
    using step_order [OF Cons.prems, of c] st by simp
  have rest: "queue s1 @ arrivals cs = g2 @ queue s2"
    using Cons.IH [OF w1] rn by simp
  have split: "arrivals (c # cs) = arrivals [c] @ arrivals cs"
    by (cases c) simp_all
  have "queue s @ arrivals (c # cs) = (queue s @ arrivals [c]) @ arrivals cs"
    using split by simp
  also have "\<dots> = g1 @ (queue s1 @ arrivals cs)"
    using one by simp
  also have "\<dots> = (g1 @ g2) @ queue s2"
    using rest by simp
  finally show ?case
    using st rn by simp
qed

text \<open>
  C3. The waiting queue is first-in first-out. After every interleaving, the callers in
  arrival order are exactly the callers granted so far, in grant order, followed by the
  callers still waiting, in queue order: grants follow arrival order, so no caller is
  granted a slot while an earlier arrival still waits. A \<^verbatim>\<open>releaseSlot\<close> that finds
  callers waiting grants the slot to the head of the queue, the longest-waiting one.
\<close>

theorem slot_queue_fifo:
  "arrivals cs = snd (run cs (new_service N)) @ queue (fst (run cs (new_service N))) \<and>
   (queue (fst (run cs (new_service N))) = w # ws \<longrightarrow>
      snd (releaseSlot (fst (run cs (new_service N)))) = [w] \<and>
      queue (fst (releaseSlot (fst (run cs (new_service N))))) = ws)"
proof -
  have "waiting_inv (new_service N)"
    by (simp add: waiting_inv_def new_service_def)
  from run_order [OF this, of cs]
  have "arrivals cs = snd (run cs (new_service N)) @ queue (fst (run cs (new_service N)))"
    by (simp add: new_service_def)
  moreover have "snd (releaseSlot s) = [w] \<and> queue (fst (releaseSlot s)) = ws"
    if "queue s = w # ws" for s
    using that by (simp add: releaseSlot_def Let_def)
  ultimately show ?thesis by blast
qed

theorem slot_queue_fifo_witness:
  "arrivals [AcquireSlot 1, AcquireSlot 2, AcquireSlot 3, AcquireSlot 4, ReleaseSlot]
     = [1, 2, 3] @ [4] \<and>
   snd (run [AcquireSlot 1, AcquireSlot 2, AcquireSlot 3, AcquireSlot 4] (new_service 2)) = [1, 2] \<and>
   queue (fst (run [AcquireSlot 1, AcquireSlot 2, AcquireSlot 3, AcquireSlot 4] (new_service 2)))
     = 3 # [4] \<and>
   snd (releaseSlot
     (fst (run [AcquireSlot 1, AcquireSlot 2, AcquireSlot 3, AcquireSlot 4] (new_service 2)))) = [3] \<and>
   queue (fst (releaseSlot
     (fst (run [AcquireSlot 1, AcquireSlot 2, AcquireSlot 3, AcquireSlot 4] (new_service 2))))) = [4]"
proof -
  have q: "queue (fst (run [AcquireSlot 1, AcquireSlot 2, AcquireSlot 3, AcquireSlot 4]
      (new_service 2))) = 3 # [4]"
    by (simp add: new_service_def acquireSlot_def)
  have g: "snd (run [AcquireSlot 1, AcquireSlot 2, AcquireSlot 3, AcquireSlot 4] (new_service 2))
      = [1, 2]"
    by (simp add: new_service_def acquireSlot_def)
  show ?thesis
    using slot_queue_fifo [of "[AcquireSlot 1, AcquireSlot 2, AcquireSlot 3, AcquireSlot 4]" 2 3 "[4]"]
      q g
    by simp
qed
subsection \<open>Retry with backoff\<close>

lemma retry_loop_delays:
  "attempt \<le> maxRetries \<Longrightarrow> j < length (delays (snd (retry_loop fn maxRetries baseDelay random attempt le))) \<Longrightarrow>
     delays (snd (retry_loop fn maxRetries baseDelay random attempt le)) ! j
       = baseDelay * 2 ^ (attempt + j) + random (attempt + j) * 1000"
proof (induction fn maxRetries baseDelay random attempt le arbitrary: j
    rule: retry_loop.induct)
  case (1 fn maxRetries baseDelay random attempt lastError)
  show ?case
  proof (cases "fn attempt")
    case (Inr v)
    with "1.prems" show ?thesis by simp
  next
    case (Inl e)
    show ?thesis
    proof (cases "attempt = maxRetries")
      case True
      with Inl "1.prems" show ?thesis by (simp add: Let_def)
    next
      case False
      define le' where "le' = (if instanceof_Error e then e else ErrorObject ''Unknown error'')"
      define rest where "rest = retry_loop fn maxRetries baseDelay random (attempt + 1) (Some le')"
      have unfold: "delays (snd (retry_loop fn maxRetries baseDelay random attempt lastError))
          = (baseDelay * 2 ^ attempt + random attempt * 1000) # delays (snd rest)"
        using Inl False "1.prems"(1) by (simp add: Let_def rest_def le'_def)
      show ?thesis
      proof (cases j)
        case 0
        with unfold show ?thesis by simp
      next
        case (Suc k)
        have k: "k < length (delays (snd rest))"
          using "1.prems"(2) unfold Suc by simp
        have le: "attempt + 1 \<le> maxRetries"
          using False "1.prems"(1) by simp
        have "delays (snd rest) ! k
            = baseDelay * 2 ^ (attempt + 1 + k) + random (attempt + 1 + k) * 1000"
          using "1.IH" [OF "1.prems"(1) Inl le'_def False refl le, of k] k
          by (simp add: rest_def le'_def)
        with unfold Suc show ?thesis by simp
      qed
    qed
  qed
qed

lemma retry_loop_invocations:
  "attempt \<le> maxRetries \<Longrightarrow>
     invocations (snd (retry_loop fn maxRetries baseDelay random attempt le))
       = Suc (length (delays (snd (retry_loop fn maxRetries baseDelay random attempt le))))"
proof (induction fn maxRetries baseDelay random attempt le rule: retry_loop.induct)
  case (1 fn maxRetries baseDelay random attempt lastError)
  show ?case
  proof (cases "fn attempt")
    case (Inr v)
    with "1.prems" show ?thesis by simp
  next
    case (Inl e)
    show ?thesis
    proof (cases "attempt = maxRetries")
      case True
      with Inl show ?thesis by (simp add: Let_def)
    next
      case False
      have le: "attempt + 1 \<le> maxRetries"
        using False "1.prems" by simp
      from "1.IH" [OF "1.prems" Inl refl False refl le] Inl False "1.prems"
      show ?thesis by (simp add: Let_def)
    qed
  qed
qed

lemma retry_loop_succeeds:
  "\<forall>n<k. \<exists>e. fn n = Inl e \<Longrightarrow> fn k = Inr v \<Longrightarrow> attempt \<le> k \<Longrightarrow> k \<le> maxRetries \<Longrightarrow>
     fst (retry_loop fn maxRetries baseDelay random attempt le) = Inr v \<and>
     invocations (snd (retry_loop fn maxRetries baseDelay random attempt le)) = Suc k - attempt"
proof (induction fn maxRetries baseDelay random attempt le rule: retry_loop.induct)
  case (1 fn maxRetries baseDelay random attempt lastError)
  have bound: "attempt \<le> maxRetries"
    using "1.prems" by simp
  show ?case
  proof (cases "attempt = k")
    case True
    with "1.prems" bound show ?thesis by simp
  next
    case False
    then have lt: "attempt < k"
      using "1.prems"(3) by simp
    then obtain e where e: "fn attempt = Inl e"
      using "1.prems"(1) by blast
    have ne: "attempt \<noteq> maxRetries"
      using lt "1.prems"(4) by simp
    have nxt: "attempt + 1 \<le> k"
      using lt by simp
    from "1.IH" [OF bound e refl ne refl "1.prems"(1) "1.prems"(2) nxt "1.prems"(4)]
    show ?thesis
      using e ne bound lt by (simp add: Let_def Suc_diff_le)
  qed
qed

lemma retry_loop_exhausts:
  "\<forall>n<k. \<exists>e. fn n = Inl e \<Longrightarrow> fn maxRetries = Inl e \<Longrightarrow> attempt \<le> maxRetries \<Longrightarrow> maxRetries < k \<Longrightarrow>
     fst (retry_loop fn maxRetries baseDelay random attempt le)
       = Inl (if instanceof_Error e then e else ErrorObject ''Unknown error'') \<and>
     invocations (snd (retry_loop fn maxRetries baseDelay random attempt le))
       = Suc maxRetries - attempt"
proof (induction fn maxRetries baseDelay random attempt le rule: retry_loop.induct)
  case (1 fn maxRetries baseDelay random attempt lastError)
  show ?case
  proof (cases "attempt = maxRetries")
    case True
    with "1.prems" show ?thesis by (simp add: Let_def)
  next
    case False
    then have lt: "attempt < k"
      using "1.prems"(3,4) by simp
    then obtain e' where e': "fn attempt = Inl e'"
      using "1.prems"(1) by blast
    have nxt: "attempt + 1 \<le> maxRetries"
      using False "1.prems"(3) by simp
    from "1.IH" [OF "1.prems"(3) e' refl False refl "1.prems"(1) "1.prems"(2) nxt "1.prems"(4)]
    show ?thesis
      using e' False "1.prems"(3) by (simp add: Let_def Suc_diff_le)
  qed
qed

text \<open>
  C4, as the code has it. The delay is computed in the \<^verbatim>\<open>catch\<close> of the attempt that
  failed, from that attempt's index: for every attempt \<open>i \<ge> 1\<close> that is made, the delay
  waited before it is \<open>baseDelay * 2 ^ (i - 1)\<close> plus \<^verbatim>\<open>Math.random() * 1000\<close>, a jitter in
  \<open>[0, 1000)\<close> milliseconds.
\<close>

theorem backoff_delay_formula:
  assumes "1 \<le> i"
    and "i < invocations (snd (retryWithBackoff fn maxRetries baseDelay random))"
    and "0 \<le> random (i - 1) \<and> random (i - 1) < 1"
  shows "delay_before_attempt (snd (retryWithBackoff fn maxRetries baseDelay random)) i
           = Some (baseDelay * 2 ^ (i - 1) + random (i - 1) * 1000) \<and>
         random (i - 1) * 1000 \<in> {0..<1000}"
proof -
  let ?t = "snd (retry_loop fn maxRetries baseDelay random 0 None)"
  have inv: "invocations ?t = Suc (length (delays ?t))"
    by (rule retry_loop_invocations) simp
  have len: "i - 1 < length (delays ?t)"
    using assms(1,2) inv by (simp add: retryWithBackoff_def)
  have "delays ?t ! (i - 1) = baseDelay * 2 ^ (0 + (i - 1)) + random (0 + (i - 1)) * 1000"
    by (rule retry_loop_delays) (use len in simp_all)
  then have "delay_before_attempt ?t i = Some (baseDelay * 2 ^ (i - 1) + random (i - 1) * 1000)"
    using assms(1) len by (simp add: delay_before_attempt_def)
  moreover have "random (i - 1) * 1000 \<in> {0..<1000}"
    using assms(3) by simp
  ultimately show ?thesis
    by (simp add: retryWithBackoff_def)
qed

lemma always_times_out_run:
  "retryWithBackoff always_times_out 2 1000 random =
     (Inl (ErrorObject ''Navigation timeout''),
      [Invoked, Waited (1000 + random 0 * 1000), Invoked, Waited (2000 + random 1 * 1000), Invoked])"
  by (simp add: retryWithBackoff_def always_times_out_def Let_def)

theorem backoff_delay_formula_witness:
  "(1::nat) \<le> 2 \<and>
   2 < invocations (snd (retryWithBackoff always_times_out 2 1000 half_jitter)) \<and>
   0 \<le> half_jitter (2 - 1) \<and> half_jitter (2 - 1) < 1 \<and>
   delay_before_attempt (snd (retryWithBackoff always_times_out 2 1000 half_jitter)) 2 = Some 2500"
proof -
  have a: "(1::nat) \<le> 2" by simp
  have b: "2 < invocations (snd (retryWithBackoff always_times_out 2 1000 half_jitter))"
    by (simp add: always_times_out_run)
  have c: "0 \<le> half_jitter (2 - 1) \<and> half_jitter (2 - 1) < 1"
    by (simp add: half_jitter_def)
  have v: "(1000::real) * 2 ^ (2 - 1) + half_jitter (2 - 1) * 1000 = 2500"
    by (simp add: half_jitter_def)
  have "delay_before_attempt (snd (retryWithBackoff always_times_out 2 1000 half_jitter)) 2
      = Some (1000 * 2 ^ (2 - 1) + half_jitter (2 - 1) * 1000)"
    using backoff_delay_formula [OF a b c] by simp
  with v a b c show ?thesis
    by simp
qed

text \<open>
  C4 as stated fails: with \<^verbatim>\<open>baseDelay = 1000\<close> and a jitter of 0, the delay before
  attempt 1 is 1000 ms, which is not \<open>1000 * 2 ^ 1\<close> plus a jitter in \<open>[0, 1000)\<close>.
\<close>

theorem retry_delay_counterexample:
  "delay_before_attempt (snd (retryWithBackoff always_times_out 2 1000 no_jitter)) 1 = Some 1000 \<and>
   (1000::real) - 1000 * 2 ^ 1 \<notin> {0..<1000}"
  by (simp add: always_times_out_run delay_before_attempt_def no_jitter_def)

text \<open>
  C5, as the code has it. For an operation that fails exactly \<open>k\<close> times and then succeeds:
  with \<open>maxRetries \<ge> k\<close> the successful value is returned after exactly \<open>k + 1\<close>
  invocations; with \<open>maxRetries < k\<close> the operation is invoked exactly \<open>maxRetries + 1\<close>
  times and the value thrown by the last invocation is rethrown unchanged when it is an
  \<^verbatim>\<open>Error\<close> instance, while any other thrown value is replaced by
  \<^verbatim>\<open>new Error('Unknown error')\<close>.
\<close>

theorem retry_attempts_and_final_error:
  assumes "\<forall>n<k. \<exists>e. fn n = Inl e" and "fn k = Inr v"
  shows "(k \<le> maxRetries \<longrightarrow>
            fst (retryWithBackoff fn maxRetries baseDelay random) = Inr v \<and>
            invocations (snd (retryWithBackoff fn maxRetries baseDelay random)) = k + 1) \<and>
         (maxRetries < k \<longrightarrow>
            invocations (snd (retryWithBackoff fn maxRetries baseDelay random)) = maxRetries + 1 \<and>
            (\<forall>e. fn maxRetries = Inl e \<longrightarrow>
               fst (retryWithBackoff fn maxRetries baseDelay random)
                 = Inl (if instanceof_Error e then e else ErrorObject ''Unknown error'')))"
proof (intro conjI impI allI)
  assume k: "k \<le> maxRetries"
  from retry_loop_succeeds [OF assms _ k, of 0 baseDelay random None]
  show "fst (retryWithBackoff fn maxRetries baseDelay random) = Inr v"
    and "invocations (snd (retryWithBackoff fn maxRetries baseDelay random)) = k + 1"
    by (simp_all add: retryWithBackoff_def)
next
  assume k: "maxRetries < k"
  then obtain e where e: "fn maxRetries = Inl e"
    using assms(1) by blast
  from retry_loop_exhausts [OF assms(1) e _ k, of 0 baseDelay random None]
  show "invocations (snd (retryWithBackoff fn maxRetries baseDelay random)) = maxRetries + 1"
    by (simp add: retryWithBackoff_def)
next
  fix e
  assume k: "maxRetries < k" and e: "fn maxRetries = Inl e"
  from retry_loop_exhausts [OF assms(1) e _ k, of 0 baseDelay random None]
  show "fst (retryWithBackoff fn maxRetries baseDelay random)
      = Inl (if instanceof_Error e then e else ErrorObject ''Unknown error'')"
    by (simp add: retryWithBackoff_def)
qed

theorem retry_attempts_and_final_error_witness:
  "fails_twice 0 = Inl (ErrorObject ''Navigation timeout'') \<and> fails_twice 2 = Inr 7 \<and>
   fst (retryWithBackoff fails_twice 2 1000 no_jitter) = Inr 7 \<and>
   invocations (snd (retryWithBackoff fails_twice 2 1000 no_jitter)) = 3 \<and>
   invocations (snd (retryWithBackoff fails_twice 1 1000 no_jitter)) = 2 \<and>
   fails_twice 1 = Inl (ErrorObject ''Navigation timeout'') \<and>
   fst (retryWithBackoff fails_twice 1 1000 no_jitter) = Inl (ErrorObject ''Navigation timeout'')"
proof -
  have a: "\<forall>n<2. \<exists>e. fails_twice n = Inl e"
    by (simp add: fails_twice_def)
  have b: "fails_twice 2 = Inr 7"
    by (simp add: fails_twice_def)
  have c: "fails_twice 1 = Inl (ErrorObject ''Navigation timeout'')"
    by (simp add: fails_twice_def)
  have z: "fails_twice 0 = Inl (ErrorObject ''Navigation timeout'')"
    by (simp add: fails_twice_def)
  show ?thesis
    using retry_attempts_and_final_error [OF a b, of 2 1000 no_jitter]
      retry_attempts_and_final_error [OF a b, of 1 1000 no_jitter] z b c
    by simp
qed

text \<open>
  C5 as stated fails for an operation that rejects with a value that is not an
  \<^verbatim>\<open>Error\<close>: with \<^verbatim>\<open>maxRetries = 0\<close> the string thrown by the only invocation is lost
  and \<^verbatim>\<open>Error('Unknown error')\<close> is thrown in its place.
\<close>

theorem retry_final_error_counterexample:
  "rejects_with_string_once 0 = Inl (OtherValue ''boom'') \<and>
   rejects_with_string_once 1 = Inr 7 \<and>
   invocations (snd (retryWithBackoff rejects_with_string_once 0 1000 no_jitter)) = 1 \<and>
   fst (retryWithBackoff rejects_with_string_once 0 1000 no_jitter)
     = Inl (ErrorObject ''Unknown error'') \<and>
   fst (retryWithBackoff rejects_with_string_once 0 1000 no_jitter)
     \<noteq> Inl (OtherValue ''boom'')"
  by (simp add: retryWithBackoff_def rejects_with_string_once_def Let_def)

subsection \<open>Slot release in loadPage and screenshotUrl\<close>

lemma loadPage_resume_releases_once:
  "browser_present env \<Longrightarrow>
     released (loadPage_resume env url options s) = 1 \<and>
     service (loadPage_resume env url options s) = fst (releaseSlot s) \<and>
     (\<exists>r. settled (loadPage_resume env url options s) = Inr r)"
  by (simp add: loadPage_resume_def Let_def)

lemma screenshotUrl_resume_releases_once:
  "\<not> shot_browser_present env \<or> (shot_newPage env = None \<and> shot_page_close env = None) \<Longrightarrow>
     released (screenshotUrl_resume env opts s) = 1 \<and>
     service (screenshotUrl_resume env opts s) = fst (releaseSlot s)"
  by (auto simp: screenshotUrl_resume_def Let_def)

text \<open>
  C1 at the inputs where the code leaks the slot. With one slot of capacity held by
  caller 1, a second \<^verbatim>\<open>loadPage\<close> waits in the queue. The browser disconnects, which sets
  \<^verbatim>\<open>this.browser = null\<close>: caller 1 fails inside its \<^verbatim>\<open>try\<close>, and its \<^verbatim>\<open>finally\<close> releases
  the slot, which grants it to caller 2. Caller 2 resumes, finds no browser and throws
  \<^verbatim>\<open>Browser not initialized\<close> without any \<^verbatim>\<open>releaseSlot\<close>: the counter stays at capacity
  with no call in progress, and the next \<^verbatim>\<open>loadPage\<close> waits. \<^verbatim>\<open>screenshotUrl\<close> returns
  without a release when \<^verbatim>\<open>newPage\<close> throws and when \<^verbatim>\<open>page.close\<close> throws in the
  \<^verbatim>\<open>finally\<close>.
\<close>

theorem slot_leaks_on_early_exits:
  "loadPage healthy_load ''https://example.com/'' default_options 2
       (fst (acquireSlot 1 (new_service 1)))
     = Waiting \<lparr>maxConcurrentPages = 1, currentSlots = 1, queue = [2]\<rparr> \<and>
   loadPage_resume disconnected_midway ''https://example.com/'' default_options
       \<lparr>maxConcurrentPages = 1, currentSlots = 1, queue = [2]\<rparr>
     = \<lparr>settled = Inr (LoadFailure ''https://example.com/''
                        \<lparr>error = ''PAGE_LOAD_FAILED'',
                         message = ''Failed to load page: Navigating frame was detached'',
                         details = LoadDetails ''Error'' 30000\<rparr>),
        service = one_slot_taken, released = 1, resumed = [2]\<rparr> \<and>
   loadPage_resume browser_lost ''https://example.com/'' default_options one_slot_taken
     = \<lparr>settled = Inl (ErrorObject ''Browser not initialized''),
        service = one_slot_taken, released = 0, resumed = []\<rparr> \<and>
   loadPage healthy_load ''https://example.com/'' default_options 3 one_slot_taken
     = Waiting \<lparr>maxConcurrentPages = 1, currentSlots = 1, queue = [3]\<rparr> \<and>
   screenshotUrl_resume newPage_throws default_shot_opts one_slot_taken
     = \<lparr>settled = Inl (ErrorObject ''Target closed''),
        service = one_slot_taken, released = 0, resumed = []\<rparr> \<and>
   screenshotUrl_resume page_close_throws default_shot_opts one_slot_taken
     = \<lparr>settled = Inl (ErrorObject ''Target closed''),
        service = one_slot_taken, released = 0, resumed = []\<rparr>"
  by (simp add: loadPage_def loadPage_resume_def screenshotUrl_resume_def acquireSlot_def
      releaseSlot_def new_service_def healthy_load_def disconnected_midway_def browser_lost_def
      default_options_def errorResult_def timeout_or_def newPage_throws_def
      page_close_throws_def tall_page_def one_slot_taken_def Let_def)

subsection \<open>Single and split captures\<close>

lemma ceiling_half: "\<lceil>real n / 2\<rceil> = (int n + 1) div 2"
proof -
  have "real n / 2 = real_of_int (int n) / real_of_int 2" by simp
  then have "\<lceil>real n / 2\<rceil> = - (- int n div 2)"
    by (simp only: ceiling_divide_eq_div)
  then show ?thesis by linarith
qed

lemma settled_body:
  "settled (screenshotUrl_resume env opts s) = Inr shots \<Longrightarrow> screenshot_body env opts = Inr shots"
  by (auto simp: screenshotUrl_resume_def Let_def split: if_splits option.splits)

lemma body_single:
  assumes "shot_navigation env = Inr d"
    and "height d \<le> (case maxHeight opts of None \<Rightarrow> 15000 | Some m \<Rightarrow> m)"
    and "screenshot_body env opts = Inr shots"
  shows "map (\<lambda>a. req_region (captured a)) shots = [FullPage]"
  using assms
  by (auto simp: screenshot_body_def Let_def make_info_def split: option.splits)

lemma body_split:
  assumes "shot_navigation env = Inr d"
    and "(case maxHeight opts of None \<Rightarrow> 15000 | Some m \<Rightarrow> m) < height d"
    and "screenshot_body env opts = Inr shots"
  shows "map (\<lambda>a. req_region (captured a)) shots =
           [Clip 0 0 (max 1 (int (width d)))
              (min (\<lceil>real (height d) / 2\<rceil> + 80) (int (height d))),
            Clip 0 (max (\<lceil>real (height d) / 2\<rceil> - 80) 0) (max 1 (int (width d)))
              (int (height d) - max (\<lceil>real (height d) / 2\<rceil> - 80) 0)]"
proof -
  have pos: "1 \<le> height d"
    using assms(2) by simp
  have half: "\<lceil>real (height d) / 2\<rceil> = (int (height d) + 1) div 2"
    by (rule ceiling_half)
  have top: "1 \<le> min (\<lceil>real (height d) / 2\<rceil> + 80) (int (height d))"
    using pos half by simp
  have bot: "1 \<le> int (height d) - max (\<lceil>real (height d) / 2\<rceil> - 80) 0"
    using pos half by (simp add: max_def)
  have y: "0 \<le> max (\<lceil>real (height d) / 2\<rceil> - 80) 0"
    by simp
  have not_le: "\<not> height d \<le> (case maxHeight opts of None \<Rightarrow> 15000 | Some m \<Rightarrow> m)"
    using assms(2) by simp
  from assms(3) have
    "capture_parts env d
       (case shot_type opts of None \<Rightarrow> ''jpeg'' | Some t \<Rightarrow> if t = [] then ''jpeg'' else t)
       (if (case shot_type opts of None \<Rightarrow> ''jpeg'' | Some t \<Rightarrow> if t = [] then ''jpeg'' else t) = ''jpeg''
        then Some (case quality opts of None \<Rightarrow> 80 | Some q \<Rightarrow> q) else None)
       (if (case shot_type opts of None \<Rightarrow> ''jpeg'' | Some t \<Rightarrow> if t = [] then ''jpeg'' else t) = ''jpeg''
        then ''jpg'' else ''png'')
       [\<lparr>part_y = 0, part_height = min (\<lceil>real (height d) / 2\<rceil> + 80) (int (height d)),
          suffix = ''part1''\<rparr>,
        \<lparr>part_y = max (\<lceil>real (height d) / 2\<rceil> - 80) 0,
          part_height = int (height d) - max (\<lceil>real (height d) / 2\<rceil> - 80) 0,
          suffix = ''part2''\<rparr>] 0 [] = Inr shots"
    using assms(1) not_le unfolding screenshot_body_def Let_def by simp
  then show ?thesis
    using top bot y
    by (auto simp: Let_def make_info_def max_absorb2 split: option.splits)
qed

lemma overlap_exceeds:
  assumes "1 \<le> n"
  shows "int n < min (\<lceil>real n / 2\<rceil> + 80) (int n) + (int n - max (\<lceil>real n / 2\<rceil> - 80) 0)"
proof -
  define h where "h = (int n + 1) div 2"
  have "0 \<le> h" and "h \<le> int n" and "1 \<le> int n"
    using assms by (simp_all add: h_def)
  then have "int n < min (h + 80) (int n) + (int n - max (h - 80) 0)"
    by (auto simp: min_def max_def)
  then show ?thesis
    by (simp add: ceiling_half h_def)
qed

lemma screenshotUrl_resume_returns:
  assumes "shot_browser_present env" and "shot_newPage env = None" and "shot_page_close env = None"
    and "shot_navigation env = Inr d" and "shot_capture env 0 = None" and "shot_capture env 1 = None"
  shows "\<exists>shots. settled (screenshotUrl_resume env opts s) = Inr shots"
  using assms
  by (simp add: screenshotUrl_resume_def screenshot_body_def Let_def)

text \<open>
  C6. Let \<open>H\<close> be the measured page height and \<open>M\<close> the maximal single-capture height
  (\<^verbatim>\<open>opts.maxHeight\<close>, 15000 by default), both pixel counts. Whenever \<^verbatim>\<open>screenshotUrl\<close>
  returns its results: if \<open>H \<le> M\<close> they are exactly one full-page capture; if \<open>H > M\<close>
  they are exactly two clips, the first at \<open>y = 0\<close> of height \<open>min (ceil (H/2) + 80) H\<close>, the
  second at \<open>y = max (ceil (H/2) - 80) 0\<close> of height \<open>H - y\<close>, and the two heights add up
  to more than \<open>H\<close>.
\<close>

theorem screenshot_single_or_split:
  assumes "shot_navigation env = Inr d"
    and "settled (screenshotUrl_resume env opts s) = Inr shots"
    and "M = (case maxHeight opts of None \<Rightarrow> 15000 | Some m \<Rightarrow> m)"
    and "H = int (height d)"
  shows "(height d \<le> M \<longrightarrow> map (\<lambda>a. req_region (captured a)) shots = [FullPage]) \<and>
         (M < height d \<longrightarrow>
            map (\<lambda>a. req_region (captured a)) shots =
              [Clip 0 0 (max 1 (int (width d))) (min (\<lceil>real_of_int H / 2\<rceil> + 80) H),
               Clip 0 (max (\<lceil>real_of_int H / 2\<rceil> - 80) 0) (max 1 (int (width d)))
                 (H - max (\<lceil>real_of_int H / 2\<rceil> - 80) 0)] \<and>
            H < min (\<lceil>real_of_int H / 2\<rceil> + 80) H + (H - max (\<lceil>real_of_int H / 2\<rceil> - 80) 0))"
proof (intro conjI impI)
  have body: "screenshot_body env opts = Inr shots"
    using assms(2) by (rule settled_body)
  {
    assume "height d \<le> M"
    then show "map (\<lambda>a. req_region (captured a)) shots = [FullPage]"
      using body_single [OF assms(1) _ body] assms(3) by simp
  }
  {
    assume tall: "M < height d"
    then show "map (\<lambda>a. req_region (captured a)) shots =
        [Clip 0 0 (max 1 (int (width d))) (min (\<lceil>real_of_int H / 2\<rceil> + 80) H),
         Clip 0 (max (\<lceil>real_of_int H / 2\<rceil> - 80) 0) (max 1 (int (width d)))
           (H - max (\<lceil>real_of_int H / 2\<rceil> - 80) 0)]"
      using body_split [OF assms(1) _ body] assms(3,4) by simp
    from tall have "1 \<le> height d" by simp
    from overlap_exceeds [OF this]
    show "H < min (\<lceil>real_of_int H / 2\<rceil> + 80) H + (H - max (\<lceil>real_of_int H / 2\<rceil> - 80) 0)"
      using assms(4) by simp
  }
qed

lemma tall_page_run:
  "settled (screenshotUrl_resume tall_page default_shot_opts one_slot_taken) =
     Inr [\<lparr>filename = ''https___example_com__1700000000000_part1.jpg'',
            served_url = ''/screenshots/https___example_com__1700000000000_part1.jpg'',
            status = Some 200,
            captured = \<lparr>req_type = ''jpeg'', req_quality = Some 80,
                          req_region = Clip 0 0 1280 10081\<rparr>\<rparr>,
          \<lparr>filename = ''https___example_com__1700000000000_part2.jpg'',
            served_url = ''/screenshots/https___example_com__1700000000000_part2.jpg'',
            status = Some 200,
            captured = \<lparr>req_type = ''jpeg'', req_quality = Some 80,
                          req_region = Clip 0 9921 1280 10080\<rparr>\<rparr>]"
  by (simp add: screenshotUrl_resume_def screenshot_body_def tall_page_def default_shot_opts_def
      all_captures_succeed_def make_info_def Let_def)

lemma short_page_run:
  "settled (screenshotUrl_resume short_page default_shot_opts one_slot_taken) =
     Inr [\<lparr>filename = ''https___example_com__1700000000000.jpg'',
            served_url = ''/screenshots/https___example_com__1700000000000.jpg'',
            status = Some 200,
            captured = \<lparr>req_type = ''jpeg'', req_quality = Some 80,
                          req_region = FullPage\<rparr>\<rparr>]"
  by (simp add: screenshotUrl_resume_def screenshot_body_def short_page_def tall_page_def
      default_shot_opts_def all_captures_succeed_def make_info_def Let_def)

theorem screenshot_single_or_split_witness:
  "shot_navigation tall_page = Inr \<lparr>width = 1280, height = 20001, response_status = Some 200\<rparr> \<and>
   shot_navigation short_page = Inr \<lparr>width = 1280, height = 15000, response_status = Some 200\<rparr> \<and>
   (case settled (screenshotUrl_resume short_page default_shot_opts one_slot_taken) of
      Inl e \<Rightarrow> False
    | Inr shots \<Rightarrow> map (\<lambda>a. req_region (captured a)) shots = [FullPage]) \<and>
   (case settled (screenshotUrl_resume tall_page default_shot_opts one_slot_taken) of
      Inl e \<Rightarrow> False
    | Inr shots \<Rightarrow>
        map (\<lambda>a. req_region (captured a)) shots = [Clip 0 0 1280 10081, Clip 0 9921 1280 10080]) \<and>
   (20001::int) < 10081 + 10080"
proof -
  have nt: "shot_navigation tall_page
      = Inr \<lparr>width = 1280, height = 20001, response_status = Some 200\<rparr>"
    by (simp add: tall_page_def)
  have ns: "shot_navigation short_page
      = Inr \<lparr>width = 1280, height = 15000, response_status = Some 200\<rparr>"
    by (simp add: short_page_def tall_page_def)
  have m: "(15000::nat) = (case maxHeight default_shot_opts of None \<Rightarrow> 15000 | Some m \<Rightarrow> m)"
    by (simp add: default_shot_opts_def)
  have ht: "(20001::int) = int (height \<lparr>width = 1280, height = 20001, response_status = Some 200\<rparr>)"
    by simp
  have hs: "(15000::int) = int (height \<lparr>width = 1280, height = 15000, response_status = Some 200\<rparr>)"
    by simp
  show ?thesis
    using screenshot_single_or_split [OF nt tall_page_run m ht]
      screenshot_single_or_split [OF ns short_page_run m hs] nt ns
    by (simp add: tall_page_run short_page_run)
qed

subsection \<open>Screenshot cleanup\<close>

lemma cleanup_file_other:
  "f \<noteq> file \<Longrightarrow> cleanup_file env ttl file dir f = dir f"
  by (simp add: cleanup_file_def Let_def split: option.splits)

lemma cleanup_file_same:
  "cleanup_file env ttl file dir file =
     (if expired env ttl dir file \<and> \<not> stat_rejects env file \<and> \<not> unlink_rejects env file
      then None else dir file)"
  by (auto simp: cleanup_file_def expired_def age_def Let_def split: option.splits)

lemma cleanup_file_gone:
  "dir f = None \<Longrightarrow> cleanup_file env ttl file dir f = None"
  by (simp add: cleanup_file_def Let_def split: option.splits)

lemma fold_cleanup_gone:
  "dir f = None \<Longrightarrow> fold (cleanup_file env ttl) files dir f = None"
  by (induction files arbitrary: dir) (simp_all add: cleanup_file_gone)

lemma fold_cleanup:
  "fold (cleanup_file env ttl) files dir f =
     (if f \<in> set files \<and> expired env ttl dir f \<and> \<not> stat_rejects env f \<and> \<not> unlink_rejects env f
      then None else dir f)"
proof (induction files arbitrary: dir)
  case Nil
  then show ?case by simp
next
  case (Cons g gs)
  show ?case
  proof (cases "f = g")
    case True
    show ?thesis
    proof (cases "expired env ttl dir g \<and> \<not> stat_rejects env g \<and> \<not> unlink_rejects env g")
      case True
      with \<open>f = g\<close> have "cleanup_file env ttl g dir f = None"
        by (simp add: cleanup_file_same)
      then have "fold (cleanup_file env ttl) gs (cleanup_file env ttl g dir) f = None"
        by (rule fold_cleanup_gone)
      with True \<open>f = g\<close> show ?thesis by simp
    next
      case False
      with \<open>f = g\<close> have same: "cleanup_file env ttl g dir = dir"
        by (auto simp: cleanup_file_def expired_def age_def Let_def split: option.splits)
      with False \<open>f = g\<close> Cons.IH [of dir] show ?thesis by auto
    qed
  next
    case False
    then have keep: "cleanup_file env ttl g dir f = dir f"
      by (rule cleanup_file_other)
    then have "expired env ttl (cleanup_file env ttl g dir) f = expired env ttl dir f"
      by (simp add: expired_def)
    with keep False Cons.IH [of "cleanup_file env ttl g dir"] show ?thesis by simp
  qed
qed

text \<open>
  C8. The timer installed by \<^verbatim>\<open>initialize\<close> runs every \<open>max (60 s) (TTL / 6)\<close>, in whole
  milliseconds (the code takes the integer part of \<open>TTL / 6\<close>), and the default TTL is
  30 minutes. A sweep over the existing directory removes a file exactly when
  \<^verbatim>\<open>readdir\<close> lists it, its age (the clock minus its \<^verbatim>\<open>mtimeMs\<close>) exceeds the TTL, and
  neither \<^verbatim>\<open>stat\<close> nor \<^verbatim>\<open>unlink\<close> rejects for it; every other file is kept, so a
  rejection for one file changes nothing for the files listed after it.
\<close>

theorem sweep_interval_and_deletions:
  assumes "is_directory env" and "readdir env = Inr files"
  shows "start_cleanup ttl None = Some \<lfloor>max (60 * 1000) (real_of_int ttl / 6)\<rfloor> \<and>
         screenshotTTL_of_env None = 30 * 60 * 1000 \<and>
         cleanupScreenshots env ttl dir f =
           (if f \<in> set files \<and> expired env ttl dir f \<and>
               \<not> stat_rejects env f \<and> \<not> unlink_rejects env f
            then None else dir f)"
proof -
  have "\<lfloor>max (60 * 1000) (real_of_int ttl / 6)\<rfloor> = max (60 * 1000) \<lfloor>real_of_int ttl / 6\<rfloor>"
    by (simp add: max_def)
  then have "start_cleanup ttl None = Some \<lfloor>max (60 * 1000) (real_of_int ttl / 6)\<rfloor>"
    by (simp add: start_cleanup_def cleanup_interval_def)
  moreover have "screenshotTTL_of_env None = 30 * 60 * 1000"
    by (simp add: screenshotTTL_of_env_def)
  moreover have "cleanupScreenshots env ttl dir f =
      (if f \<in> set files \<and> expired env ttl dir f \<and> \<not> stat_rejects env f \<and> \<not> unlink_rejects env f
       then None else dir f)"
    using assms by (simp add: cleanupScreenshots_def fold_cleanup)
  ultimately show ?thesis by simp
qed

theorem sweep_interval_and_deletions_witness:
  "is_directory sweep_env \<and>
   readdir sweep_env = Inr [''locked.jpg'', ''old.jpg'', ''fresh.png''] \<and>
   start_cleanup 1800000 None = Some 300000 \<and>
   cleanupScreenshots sweep_env 1800000 sweep_files ''locked.jpg'' = Some 2000 \<and>
   cleanupScreenshots sweep_env 1800000 sweep_files ''old.jpg'' = None \<and>
   cleanupScreenshots sweep_env 1800000 sweep_files ''fresh.png'' = Some 1900000"
proof -
  have a: "is_directory sweep_env"
    by (simp add: sweep_env_def)
  have b: "readdir sweep_env = Inr [''locked.jpg'', ''old.jpg'', ''fresh.png'']"
    by (simp add: sweep_env_def)
  have e: "expired sweep_env 1800000 sweep_files ''locked.jpg''"
    "expired sweep_env 1800000 sweep_files ''old.jpg''"
    "\<not> expired sweep_env 1800000 sweep_files ''fresh.png''"
    by (simp_all add: expired_def age_def sweep_env_def sweep_files_def)
  have r: "unlink_rejects sweep_env ''locked.jpg''" "\<not> unlink_rejects sweep_env ''old.jpg''"
    "\<not> stat_rejects sweep_env ''old.jpg''"
    by (simp_all add: sweep_env_def unlink_locked_def stat_never_rejects_def)
  have v: "sweep_files ''locked.jpg'' = Some 2000" "sweep_files ''fresh.png'' = Some 1900000"
    by (simp_all add: sweep_files_def)
  show ?thesis
    using sweep_interval_and_deletions [OF a b, of 1800000 sweep_files "''locked.jpg''"]
      sweep_interval_and_deletions [OF a b, of 1800000 sweep_files "''old.jpg''"]
      sweep_interval_and_deletions [OF a b, of 1800000 sweep_files "''fresh.png''"]
      a b e r v
    by simp
qed

subsection \<open>The audit pipeline\<close>

lemma parseHtmlContent_returns:
  "parseHtmlContent env h u = Inr p \<Longrightarrow>
     \<exists>doc. cheerio_load env h = Inr doc \<and> p = extractAuditData (url_lib env) u doc 200"
  by (auto simp: parseHtmlContent_def split: sum.splits)

lemma example_validates:
  "validateUrl (url_lib example_env) ''https://example.com''
     = Inr (Valid ''https://example.com/'' example_url)"
  by (simp add: validateUrl_def validateUrl_try_def urlSchema_safeParse_def trim_def is_space_def
      example_env_def example_lib_def example_new_URL_def example_zod_url_def example_url_def
      isBlockedDomain_def blockedDomains_def blockedPatterns_def performAdditionalValidations_def
      Let_def)

lemma example_loads:
  "loadPageWithRetry example_env u ao
     = (Inr (LoadSuccess ''https://example.com/'' ''<html></html>'' 200 120 []), [Invoked])"
  by (simp add: loadPageWithRetry_def retryWithBackoff_def load_operation_def example_env_def
      example_loadPage_call_def)

lemma example_parses:
  "parseHtmlContent example_env ''<html></html>'' ''https://example.com/''
     = Inr (extractAuditData example_lib ''https://example.com/'' example_doc 200)"
  by (simp add: parseHtmlContent_def example_env_def example_cheerio_load_def)

lemma example_env_calls:
  "cheerio_load example_env h = Inr example_doc"
  "screenshotUrl_call example_env u so = Inl (ErrorObject ''Navigation timeout of 30000 ms exceeded'')"
  by (simp_all add: example_env_def example_cheerio_load_def example_screenshotUrl_call_def)

lemma example_audit_data:
  "data (fst (auditWebsite example_env ''https://example.com'' with_screenshot)) =
     Some \<lparr>result_url = ''https://example.com/'', result_statusCode = 200,
           result_content = ''Example Domain'', performance_loadTimeInMs = 120,
           result_resources =
             \<lparr>links = [\<lparr>link_href = ''https://example.com/about'', textContent = ''About'',
                         isInternal = True, rel = None\<rparr>],
              scripts = [],
              styles = [\<lparr>style_href = None, style_inlineContent = Some ''body{}''\<rparr>]\<rparr>,
           response_headers = [], response_loadTimeInMs = 120,
           screenshot = Some [],
           screenshotError = Some ''Navigation timeout of 30000 ms exceeded''\<rparr>"
  by (simp add: auditWebsite_def example_validates example_loads example_parses Let_def
      extractAuditData_def extractPageResources_def example_doc_def with_screenshot_def
      default_options_def example_env_calls)

lemma retry_loop_returned:
  "fst (retry_loop fn maxRetries baseDelay random attempt le) = Inr r \<Longrightarrow> \<exists>n. fn n = Inr r"
proof (induction fn maxRetries baseDelay random attempt le rule: retry_loop.induct)
  case (1 fn maxRetries baseDelay random attempt lastError)
  show ?case
  proof (cases "attempt \<le> maxRetries")
    case False
    with "1.prems" show ?thesis by simp
  next
    case True
    show ?thesis
    proof (cases "fn attempt")
      case (Inr x)
      with True "1.prems" show ?thesis by auto
    next
      case (Inl e)
      show ?thesis
      proof (cases "attempt = maxRetries")
        case same: True
        with Inl "1.prems" show ?thesis by (simp add: Let_def)
      next
        case differ: False
        from "1.IH" [OF True Inl refl differ refl] "1.prems" True Inl differ
        show ?thesis by (simp add: Let_def)
      qed
    qed
  qed
qed

lemma loadPageWithRetry_returns_success:
  "fst (loadPageWithRetry env url options) = Inr r \<Longrightarrow> load_success r"
proof -
  assume "fst (loadPageWithRetry env url options) = Inr r"
  then obtain n where "load_operation env url options n = Inr r"
    unfolding loadPageWithRetry_def retryWithBackoff_def by (blast dest: retry_loop_returned)
  then show ?thesis
    by (auto simp: load_operation_def split: sum.splits page_load_result.splits)
qed

text \<open>
  C7. When validation, page loading and parsing succeed and a screenshot is requested, an
  exception thrown by \<^verbatim>\<open>screenshotUrl\<close> does not fail the audit: \<^verbatim>\<open>auditWebsite\<close> returns
  \<^verbatim>\<open>success = true\<close>, with \<^verbatim>\<open>screenshotError\<close> set to the error's text and an empty
  \<^verbatim>\<open>screenshot\<close> array on the data.
\<close>

theorem screenshot_failure_is_not_fatal:
  assumes "validateUrl (url_lib env) url = Inr (Valid v pu)"
    and "fst (loadPageWithRetry env v options) = Inr (LoadSuccess u h code t hs)"
    and "parseHtmlContent env h u = Inr parseResult"
    and "includeScreenshot options"
    and "screenshotUrl_call env u (shotOpts options) = Inl shotErr"
  shows "success (fst (auditWebsite env url options)) \<and>
         (\<exists>d. data (fst (auditWebsite env url options)) = Some d \<and>
              screenshotError d = Some (error_string shotErr) \<and> screenshot d = Some [])"
proof -
  obtain doc where doc: "cheerio_load env h = Inr doc"
    using parseHtmlContent_returns [OF assms(3)] by blast
  show ?thesis
    using assms doc by (simp add: auditWebsite_def Let_def)
qed

theorem screenshot_failure_is_not_fatal_witness:
  "validateUrl (url_lib example_env) ''https://example.com''
     = Inr (Valid ''https://example.com/'' example_url) \<and>
   fst (loadPageWithRetry example_env ''https://example.com/'' with_screenshot)
     = Inr (LoadSuccess ''https://example.com/'' ''<html></html>'' 200 120 []) \<and>
   parseHtmlContent example_env ''<html></html>'' ''https://example.com/''
     = Inr (extractAuditData example_lib ''https://example.com/'' example_doc 200) \<and>
   includeScreenshot with_screenshot \<and>
   screenshotUrl_call example_env ''https://example.com/'' (shotOpts with_screenshot)
     = Inl (ErrorObject ''Navigation timeout of 30000 ms exceeded'') \<and>
   success (fst (auditWebsite example_env ''https://example.com'' with_screenshot)) \<and>
   map_option screenshotError
       (data (fst (auditWebsite example_env ''https://example.com'' with_screenshot)))
     = Some (Some ''Navigation timeout of 30000 ms exceeded'')"
proof -
  have l: "fst (loadPageWithRetry example_env ''https://example.com/'' with_screenshot)
      = Inr (LoadSuccess ''https://example.com/'' ''<html></html>'' 200 120 [])"
    by (simp add: example_loads)
  have i: "includeScreenshot with_screenshot"
    by (simp add: with_screenshot_def)
  have sh: "screenshotUrl_call example_env ''https://example.com/'' (shotOpts with_screenshot)
      = Inl (ErrorObject ''Navigation timeout of 30000 ms exceeded'')"
    by (simp add: example_env_calls)
  show ?thesis
    using screenshot_failure_is_not_fatal [OF example_validates l example_parses i sh]
      example_validates l example_parses i sh
    by auto
qed

text \<open>
  C9, as the code has it. \<^verbatim>\<open>validateUrl\<close> returns a result for every input string and
  never throws. On every URL string it rejects, \<^verbatim>\<open>auditWebsite\<close> returns at once
  \<^verbatim>\<open>success = false\<close> with the validator's error and nothing else (no \<^verbatim>\<open>details\<close>, so
  no stage), having made no call on the browser service: no slot acquired, no page
  loaded, no retry, no delay.
\<close>

theorem validation_failure_short_circuits:
  "(\<exists>r. validateUrl lib s = Inr r) \<and>
   (validateUrl (url_lib env) url = Inr (Invalid err) \<longrightarrow>
      auditWebsite env url options =
        (\<lparr>success = False, data = None, result_error = Some err, result_details = None\<rparr>, []))"
  by (simp add: auditWebsite_def validateUrl_def split: sum.splits)

lemma example_rejects_blank:
  "validateUrl (url_lib example_env) ''  ''
     = Inr (Invalid \<lparr>error = ''MISSING_URL'', message = ''URL parameter is required'',
                     details = NoDetails\<rparr>)"
  by (simp add: validateUrl_def validateUrl_try_def trim_def is_space_def)

theorem validation_failure_short_circuits_witness:
  "validateUrl (url_lib example_env) ''  ''
     = Inr (Invalid \<lparr>error = ''MISSING_URL'', message = ''URL parameter is required'',
                     details = NoDetails\<rparr>) \<and>
   auditWebsite example_env ''  '' with_screenshot =
     (\<lparr>success = False, data = None,
       result_error = Some \<lparr>error = ''MISSING_URL'', message = ''URL parameter is required'',
                            details = NoDetails\<rparr>,
       result_details = None\<rparr>, [])"
  using validation_failure_short_circuits [of example_lib "''  ''" example_env "''  ''"
      "\<lparr>error = ''MISSING_URL'', message = ''URL parameter is required'', details = NoDetails\<rparr>"
      with_screenshot]
    example_rejects_blank
  by simp

text \<open>
  C9 as stated fails on the stage: the result for a rejected URL has no \<^verbatim>\<open>details\<close>, where
  the page-loading failure puts its \<^verbatim>\<open>step\<close>, and the validator's error carries none.
\<close>

theorem validation_stage_counterexample:
  "result_details (fst (auditWebsite example_env ''  '' with_screenshot)) = None \<and>
   map_option details (result_error (fst (auditWebsite example_env ''  '' with_screenshot)))
     = Some NoDetails \<and>
   map_option details_step (result_details (fst (auditWebsite example_env ''  '' with_screenshot)))
     \<noteq> Some (Some ''validation'')"
  by (simp add: auditWebsite_def example_rejects_blank)

text \<open>
  C10. Every successful full audit went through validation, loading and parsing, and
  its \<^verbatim>\<open>resources.scripts\<close> is the empty array whatever \<^verbatim>\<open>extractScripts\<close> found, while
  \<^verbatim>\<open>resources.links\<close> and \<^verbatim>\<open>resources.styles\<close> are what \<^verbatim>\<open>extractLinks\<close> and
  \<^verbatim>\<open>extractStyles\<close> returned for the loaded document.
\<close>

theorem successful_audit_drops_scripts:
  assumes "success (fst (auditWebsite env url options))"
  shows "\<exists>v pu u h code t hs doc d.
           validateUrl (url_lib env) url = Inr (Valid v pu) \<and>
           fst (loadPageWithRetry env v options) = Inr (LoadSuccess u h code t hs) \<and>
           parseHtmlContent env h u = Inr (extractAuditData (url_lib env) u doc 200) \<and>
           data (fst (auditWebsite env url options)) = Some d \<and>
           scripts (result_resources d) = [] \<and>
           links (result_resources d) = extractLinks doc \<and>
           styles (result_resources d) = extractStyles doc"
proof -
  obtain v pu where valid: "validateUrl (url_lib env) url = Inr (Valid v pu)"
    using assms
    by (auto simp: auditWebsite_def audit_failed_def split: sum.splits validation_result.splits)
  obtain u h code t hs where loaded: "fst (loadPageWithRetry env v options) = Inr (LoadSuccess u h code t hs)"
    using assms valid
    by (auto simp: auditWebsite_def audit_failed_def Let_def
        split: sum.splits page_load_result.splits)
  obtain doc where doc: "cheerio_load env h = Inr doc"
    using assms valid loaded
    by (auto simp: auditWebsite_def audit_failed_def Let_def parseHtmlContent_def
        split: sum.splits)
  have parsed: "parseHtmlContent env h u = Inr (extractAuditData (url_lib env) u doc 200)"
    using doc by (simp add: parseHtmlContent_def)
  have "\<exists>d. data (fst (auditWebsite env url options)) = Some d \<and>
           scripts (result_resources d) = [] \<and>
           links (result_resources d) = extractLinks doc \<and>
           styles (result_resources d) = extractStyles doc"
    using valid loaded doc parsed
    by (cases "screenshotUrl_call env u (shotOpts options)")
      (simp_all add: auditWebsite_def Let_def extractAuditData_def extractPageResources_def)
  with valid loaded parsed show ?thesis
    by blast
qed

theorem successful_audit_drops_scripts_witness:
  "success (fst (auditWebsite example_env ''https://example.com'' with_screenshot)) \<and>
   scripts (resources (extractAuditData example_lib ''https://example.com/'' example_doc 200))
     = [\<lparr>src = None, inlineContent = Some ''console.log(1)''\<rparr>] \<and>
   map_option (\<lambda>d. scripts (result_resources d))
       (data (fst (auditWebsite example_env ''https://example.com'' with_screenshot)))
     = Some [] \<and>
   map_option (\<lambda>d. links (result_resources d))
       (data (fst (auditWebsite example_env ''https://example.com'' with_screenshot)))
     = Some (extractLinks example_doc)"
proof -
  have s: "success (fst (auditWebsite example_env ''https://example.com'' with_screenshot))"
    by (simp add: auditWebsite_def example_validates example_loads example_parses Let_def
        example_env_calls)
  have x: "scripts (resources (extractAuditData example_lib ''https://example.com/'' example_doc 200))
      = [\<lparr>src = None, inlineContent = Some ''console.log(1)''\<rparr>]"
    by (simp add: extractAuditData_def extractPageResources_def extractScripts_def
        extract_script_def example_doc_def trim_def is_space_def)
  show ?thesis
    using successful_audit_drops_scripts [OF s] s x
    by (auto simp: example_audit_data example_doc_def)
qed


end
